theory Spec2Isabelle
  imports Main "HOL-Library.AList"
begin

section \<open>Python values\<close>

text \<open>
  The handler of \<^verbatim>\<open>webhooks.py\<close> works on decoded JSON documents, on text and on
  bytes. A Python \<^verbatim>\<open>str\<close> is represented by its UTF-8 encoding, one \<^typ>\<open>char\<close> per
  byte, so that \<^verbatim>\<open>bytes(s, 'utf-8')\<close> is the identity and \<^verbatim>\<open>b.decode('utf-8')\<close> is the
  identity on the byte strings that are valid UTF-8 and raises on the others. JSON
  numbers are the integers; a dict is the list of its items, looked up by key.
  Python's \<^verbatim>\<open>None\<close> is \<open>JNull\<close>.
\<close>

datatype json =
    JNull
  | JBool bool
  | JNum int
  | JStr string
  | JArr "json list"
  | JObj "(string \<times> json) list"

datatype exn =
    KeyError
  | TypeError
  | IndexError
  | ValueError
  | AttributeError
  | UnicodeDecodeError
  | RequestException
  | OSError

text \<open>Truth value of an object, as \<^verbatim>\<open>if x:\<close> and \<^verbatim>\<open>x and y\<close> test it.\<close>

fun truthy :: "json \<Rightarrow> bool" where
  "truthy JNull = False"
| "truthy (JBool b) = b"
| "truthy (JNum n) = (n \<noteq> 0)"
| "truthy (JStr s) = (s \<noteq> [])"
| "truthy (JArr xs) = (xs \<noteq> [])"
| "truthy (JObj kvs) = (kvs \<noteq> [])"

definition startswith :: "string \<Rightarrow> string \<Rightarrow> bool" where
  "startswith s p = (take (length p) s = p)"

definition endswith :: "string \<Rightarrow> string \<Rightarrow> bool" where
  "endswith s p = (length p \<le> length s \<and> drop (length s - length p) s = p)"

text \<open>\<^verbatim>\<open>k in s\<close> for two strings: \<open>k\<close> occurs in \<open>s\<close> as a substring.\<close>

fun substring :: "string \<Rightarrow> string \<Rightarrow> bool" where
  "substring k [] = (k = [])"
| "substring k (x # xs) = (startswith (x # xs) k \<or> substring k xs)"

text \<open>
  \<^verbatim>\<open>k in payload\<close> with a string \<open>k\<close>: key membership for a dict, element membership
  for a list, substring test for a string, and a \<^verbatim>\<open>TypeError\<close> for \<^verbatim>\<open>None\<close>, a
  boolean or a number, which are not iterable.
\<close>

fun py_in :: "string \<Rightarrow> json \<Rightarrow> exn + bool" where
  "py_in k (JObj kvs) = Inr (map_of kvs k \<noteq> None)"
| "py_in k (JArr xs) = Inr (JStr k \<in> set xs)"
| "py_in k (JStr s) = Inr (substring k s)"
| "py_in k JNull = Inl TypeError"
| "py_in k (JBool b) = Inl TypeError"
| "py_in k (JNum n) = Inl TypeError"

text \<open>
  \<^verbatim>\<open>payload[k]\<close> with a string \<open>k\<close>: a dict gives the value or raises
  \<^verbatim>\<open>KeyError\<close>; every other value raises \<^verbatim>\<open>TypeError\<close> (a list and a string want
  integer indices, the rest is not subscriptable).
\<close>

fun py_getitem :: "json \<Rightarrow> string \<Rightarrow> exn + json" where
  "py_getitem (JObj kvs) k = (case map_of kvs k of None \<Rightarrow> Inl KeyError | Some v \<Rightarrow> Inr v)"
| "py_getitem JNull k = Inl TypeError"
| "py_getitem (JBool b) k = Inl TypeError"
| "py_getitem (JNum n) k = Inl TypeError"
| "py_getitem (JStr s) k = Inl TypeError"
| "py_getitem (JArr xs) k = Inl TypeError"

text \<open>\<^verbatim>\<open>s.split(c)\<close> and \<^verbatim>\<open>s.split(c, n)\<close> for a one-character separator.\<close>

fun str_split :: "char \<Rightarrow> string \<Rightarrow> string list" where
  "str_split c [] = [[]]"
| "str_split c (x # xs) =
     (if x = c then [] # str_split c xs
      else (case str_split c xs of [] \<Rightarrow> [[x]] | y # ys \<Rightarrow> (x # y) # ys))"

fun str_split_max :: "char \<Rightarrow> nat \<Rightarrow> string \<Rightarrow> string list" where
  "str_split_max c 0 s = [s]"
| "str_split_max c (Suc n) [] = [[]]"
| "str_split_max c (Suc n) (x # xs) =
     (if x = c then [] # str_split_max c n xs
      else (case str_split_max c (Suc n) xs of [] \<Rightarrow> [[x]] | y # ys \<Rightarrow> (x # y) # ys))"

text \<open>\<^verbatim>\<open>xs[i]\<close> for a list and a non-negative index.\<close>

definition list_index :: "'a list \<Rightarrow> nat \<Rightarrow> exn + 'a" where
  "list_index xs i = (if i < length xs then Inr (xs ! i) else Inl IndexError)"

text \<open>\<^verbatim>\<open>str(x)\<close>, which is also what \<^verbatim>\<open>'{}'.format(x)\<close> inserts. The text of a list
  or a dict is Python's \<^verbatim>\<open>repr\<close>, taken as a parameter.\<close>

definition digit_char :: "nat \<Rightarrow> char" where
  "digit_char d = char_of (48 + d)"

fun str_nat :: "nat \<Rightarrow> string" where
  "str_nat n = (if n < 10 then [digit_char n] else str_nat (n div 10) @ [digit_char (n mod 10)])"

declare str_nat.simps [simp del]

definition str_int :: "int \<Rightarrow> string" where
  "str_int i = (if i < 0 then CHR ''-'' # str_nat (nat (- i)) else str_nat (nat i))"

fun py_str :: "(json \<Rightarrow> string) \<Rightarrow> json \<Rightarrow> string" where
  "py_str r JNull = ''None''"
| "py_str r (JBool b) = (if b then ''True'' else ''False'')"
| "py_str r (JNum n) = str_int n"
| "py_str r (JStr s) = s"
| "py_str r (JArr xs) = r (JArr xs)"
| "py_str r (JObj kvs) = r (JObj kvs)"

section \<open>Metadata extraction\<close>

text \<open>
  Lines 131 to 153: the branch. The three cases are tried in the source's order; a
  \<^verbatim>\<open>KeyError\<close> raised inside the \<^verbatim>\<open>try\<close> leaves \<open>branch\<close> at \<^verbatim>\<open>None\<close>, every
  other exception leaves the handler.
\<close>

definition branch_cases :: "string \<Rightarrow> json \<Rightarrow> exn + json" where
  "branch_cases event payload =
     (case py_in ''ref_type'' payload of
        Inl e \<Rightarrow> Inl e
      | Inr True \<Rightarrow>
          (case py_getitem payload ''ref_type'' of
             Inl e \<Rightarrow> Inl e
           | Inr rt \<Rightarrow> if rt = JStr ''branch'' then py_getitem payload ''ref'' else Inr JNull)
      | Inr False \<Rightarrow>
          (case py_in ''pull_request'' payload of
             Inl e \<Rightarrow> Inl e
           | Inr True \<Rightarrow>
               (case py_getitem payload ''pull_request'' of
                  Inl e \<Rightarrow> Inl e
                | Inr pr \<Rightarrow>
                    (case py_getitem pr ''base'' of
                       Inl e \<Rightarrow> Inl e
                     | Inr base \<Rightarrow> py_getitem base ''ref''))
           | Inr False \<Rightarrow>
               if event = ''push'' then
                 (case py_getitem payload ''ref'' of
                    Inl e \<Rightarrow> Inl e
                  | Inr (JStr r) \<Rightarrow>
                      (case list_index (str_split_max CHR ''/'' 2 r) 2 of
                         Inl e \<Rightarrow> Inl e
                       | Inr b \<Rightarrow> Inr (JStr b))
                  | Inr _ \<Rightarrow> Inl AttributeError)
               else Inr JNull))"

definition determine_branch :: "string \<Rightarrow> json \<Rightarrow> exn + json" where
  "determine_branch event payload =
     (case branch_cases event payload of
        Inl KeyError \<Rightarrow> Inr JNull
      | Inl e \<Rightarrow> Inl e
      | Inr b \<Rightarrow> Inr b)"

text \<open>Line 157: the repository name, outside the \<^verbatim>\<open>try\<close>.\<close>

definition repository_name :: "json \<Rightarrow> exn + json" where
  "repository_name payload =
     (case py_in ''repository'' payload of
        Inl e \<Rightarrow> Inl e
      | Inr True \<Rightarrow>
          (case py_getitem payload ''repository'' of
             Inl e \<Rightarrow> Inl e
           | Inr repo \<Rightarrow> py_getitem repo ''name'')
      | Inr False \<Rightarrow> Inr JNull)"

text \<open>Line 167: \<^verbatim>\<open>event == 'push' and payload['deleted']\<close>.\<close>

definition push_deleted :: "string \<Rightarrow> json \<Rightarrow> exn + bool" where
  "push_deleted event payload =
     (if event = ''push'' then
        (case py_getitem payload ''deleted'' of
           Inl e \<Rightarrow> Inl e
         | Inr d \<Rightarrow> Inr (truthy d))
      else Inr False)"

section \<open>Paths\<close>

text \<open>\<^verbatim>\<open>os.path.join(a, b)\<close> and \<^verbatim>\<open>os.path.basename(p)\<close> of \<^verbatim>\<open>posixpath\<close>.\<close>

definition path_join :: "string \<Rightarrow> string \<Rightarrow> string" where
  "path_join a b =
     (if startswith b ''/'' then b
      else if a = [] \<or> endswith a ''/'' then a @ b
      else a @ ''/'' @ b)"

definition basename :: "string \<Rightarrow> string" where
  "basename p = rev (takeWhile (\<lambda>c. c \<noteq> CHR ''/'') (rev p))"

section \<open>Bytes and digests\<close>

text \<open>
  \<^verbatim>\<open>b.decode('utf-8')\<close> in strict mode: the well-formed byte sequences of UTF-8 (no
  overlong form, no surrogate, nothing above U+10FFFF) decode, every other byte string
  raises \<^verbatim>\<open>UnicodeDecodeError\<close>.
\<close>

definition utf8_cont :: "nat \<Rightarrow> bool" where
  "utf8_cont b = (128 \<le> b \<and> b \<le> 191)"

fun utf8_valid :: "nat list \<Rightarrow> bool" where
  "utf8_valid [] = True"
| "utf8_valid [b0] = (b0 < 128)"
| "utf8_valid [b0, b1] =
     (if b0 < 128 then utf8_valid [b1]
      else 194 \<le> b0 \<and> b0 \<le> 223 \<and> utf8_cont b1)"
| "utf8_valid [b0, b1, b2] =
     (if b0 < 128 then utf8_valid [b1, b2]
      else if 194 \<le> b0 \<and> b0 \<le> 223 then utf8_cont b1 \<and> utf8_valid [b2]
      else 224 \<le> b0 \<and> b0 \<le> 239 \<and> utf8_cont b1 \<and> utf8_cont b2
        \<and> (b0 = 224 \<and> 160 \<le> b1 \<or> b0 = 237 \<and> b1 \<le> 159 \<or> (b0 \<noteq> 224 \<and> b0 \<noteq> 237)))"
| "utf8_valid (b0 # b1 # b2 # b3 # bs) =
     (if b0 < 128 then utf8_valid (b1 # b2 # b3 # bs)
      else if 194 \<le> b0 \<and> b0 \<le> 223 then utf8_cont b1 \<and> utf8_valid (b2 # b3 # bs)
      else if 224 \<le> b0 \<and> b0 \<le> 239 then
        utf8_cont b1 \<and> utf8_cont b2
        \<and> (b0 = 224 \<and> 160 \<le> b1 \<or> b0 = 237 \<and> b1 \<le> 159 \<or> (b0 \<noteq> 224 \<and> b0 \<noteq> 237))
        \<and> utf8_valid (b3 # bs)
      else 240 \<le> b0 \<and> b0 \<le> 244 \<and> utf8_cont b1 \<and> utf8_cont b2 \<and> utf8_cont b3
        \<and> (b0 = 240 \<and> 144 \<le> b1 \<or> b0 = 244 \<and> b1 \<le> 143 \<or> (b0 \<noteq> 240 \<and> b0 \<noteq> 244))
        \<and> utf8_valid bs)"

definition decode_utf8 :: "string \<Rightarrow> exn + string" where
  "decode_utf8 b = (if utf8_valid (map of_char b) then Inr b else Inl UnicodeDecodeError)"

text \<open>\<^verbatim>\<open>mac.hexdigest()\<close>: two lower-case hexadecimal digits for each byte of the digest.\<close>

definition hexdigit :: "nat \<Rightarrow> char" where
  "hexdigit n = ''0123456789abcdef'' ! (n mod 16)"

definition hexdigest :: "nat list \<Rightarrow> string" where
  "hexdigest bs = concat (map (\<lambda>b. [hexdigit ((b mod 256) div 16), hexdigit (b mod 16)]) bs)"

text \<open>
  Lines 34 to 36: on the interpreters that run this file \<^verbatim>\<open>constant_time_compare\<close> is
  \<^verbatim>\<open>hmac.compare_digest\<close>, which compares two strings for equality and raises
  \<^verbatim>\<open>TypeError\<close> when one of them has a character outside ASCII.
\<close>

definition ascii_only :: "string \<Rightarrow> bool" where
  "ascii_only s = list_all (\<lambda>c. (of_char c :: nat) < 128) s"

definition compare_digest :: "string \<Rightarrow> string \<Rightarrow> exn + bool" where
  "compare_digest a b = (if ascii_only a \<and> ascii_only b then Inr (a = b) else Inl TypeError)"

definition constant_time_compare :: "string \<Rightarrow> string \<Rightarrow> exn + bool" where
  "constant_time_compare val1 val2 = compare_digest val1 val2"

text \<open>
  Lines 38 to 44: the definition for interpreters older than 2.7.7, which do not run
  the rest of the file as it is written. The loop folds the XOR of the character codes
  into \<open>result\<close> with OR.
\<close>

unbundle bit_operations_syntax

fun xor_accumulate :: "nat \<Rightarrow> string \<Rightarrow> string \<Rightarrow> nat" where
  "xor_accumulate result (x # xs) (y # ys) =
     xor_accumulate (result OR (of_char x XOR of_char y)) xs ys"
| "xor_accumulate result xs ys = result"

definition constant_time_compare_fallback :: "string \<Rightarrow> string \<Rightarrow> bool" where
  "constant_time_compare_fallback val1 val2 =
     (if length val1 \<noteq> length val2 then False
      else xor_accumulate 0 val1 val2 = 0)"

section \<open>Configuration, request and the outside world\<close>

text \<open>
  \<^verbatim>\<open>config.json\<close> as the handler reads it: each key may be missing, and
  \<^verbatim>\<open>config.get\<close> supplies the default then.
\<close>

record config =
  github_ips_only :: "bool option"
  enforce_secret :: "string option"
  return_scripts_info :: "bool option"
  hooks_path :: "string option"

text \<open>What the handler reads of the Flask request. \<open>get_json\<close> is the result of
  \<^verbatim>\<open>request.get_json()\<close>, \<open>None\<close> when that call raises.\<close>

record request =
  req_method :: string
  access_route :: "string list"
  x_hub_signature :: "string option"
  x_github_event :: "string option"
  req_data :: string
  get_json :: "json option"

text \<open>
  What the handler asks of its surroundings: the directory of the application, the
  parsed \<^verbatim>\<open>config.json\<close> (\<open>None\<close> when the file is missing), the \<^verbatim>\<open>hooks\<close> list
  of GitHub's meta document (\<open>None\<close> when fetching it raises), the \<^verbatim>\<open>ipaddress\<close>
  parsers (\<open>None\<close> for a \<^verbatim>\<open>ValueError\<close>), the raw HMAC-SHA1 digest, the two file
  tests, the name \<^verbatim>\<open>mkstemp\<close> gives to the n-th file it creates, whether the
  operating system refuses to start a process with a given argument vector (a file
  with the execute bit that cannot be executed, for one), what a hook started with a
  given argument vector exits with and prints, and \<^verbatim>\<open>repr\<close>.
\<close>

record world =
  app_dir :: string
  config_json :: "config option"
  github_meta_hooks :: "string list option"
  ip_address :: "string \<Rightarrow> nat option"
  ip_network :: "string \<Rightarrow> (nat \<Rightarrow> bool) option"
  hmac_sha1 :: "string \<Rightarrow> string \<Rightarrow> nat list"
  isfile :: "string \<Rightarrow> bool"
  access_x_ok :: "string \<Rightarrow> bool"
  mkstemp :: "nat \<Rightarrow> string"
  popen_oserror :: "string list \<Rightarrow> bool"
  communicate :: "string list \<Rightarrow> int \<times> string \<times> string"
  repr :: "json \<Rightarrow> string"

section \<open>Effects and outcomes\<close>

datatype log_level = INFO | WARNING | ERROR

text \<open>One constructor for each logging call of the handler, with the values it formats.\<close>

datatype log_record =
    Ip_not_allowed nat
  | No_signature
  | Unsupported_mech string
  | Invalid_digest
  | Parsing_failed
  | Metadata json
  | Skipping json
  | Trying string
  | Hook_failed string int string
  | Output json

datatype effect =
    Log log_level log_record
  | Http_get string
  | Mkstemp string
  | Write_json string json
  | Popen "string list"
  | Communicate "string list"
  | Remove string

text \<open>The body of a response: \<^verbatim>\<open>dumps(v)\<close> or \<^verbatim>\<open>dumps(v, sort_keys=True, indent=4)\<close>.\<close>

datatype response = Dumps json | Dumps_sorted_indent json

text \<open>How a request ends: a response, \<^verbatim>\<open>abort(code)\<close>, or an exception nobody catches.\<close>

datatype outcome = Return response | Abort nat | Raise exn

section \<open>Validation\<close>

text \<open>Lines 66 to 78.\<close>

definition default_config :: config where
  "default_config =
     \<lparr>github_ips_only = Some False, enforce_secret = Some [],
      return_scripts_info = Some False, hooks_path = Some ''/missing''\<rparr>"

definition load_config :: "world \<Rightarrow> config" where
  "load_config w = (case config_json w of None \<Rightarrow> default_config | Some c \<Rightarrow> c)"

definition hooks_dir :: "world \<Rightarrow> config \<Rightarrow> string" where
  "hooks_dir w cfg =
     (case hooks_path cfg of None \<Rightarrow> path_join (app_dir w) ''hooks'' | Some h \<Rightarrow> h)"

text \<open>Lines 80 to 94: the \<^verbatim>\<open>for\<close> ... \<^verbatim>\<open>else\<close> over the allowed networks.\<close>

fun in_whitelist :: "world \<Rightarrow> nat \<Rightarrow> string list \<Rightarrow> exn + bool" where
  "in_whitelist w src_ip [] = Inr False"
| "in_whitelist w src_ip (valid_ip # rest) =
     (case ip_network w valid_ip of
        None \<Rightarrow> Inl ValueError
      | Some net \<Rightarrow> if net src_ip then Inr True else in_whitelist w src_ip rest)"

definition meta_url :: string where
  "meta_url = ''https://api.github.com/meta''"

definition allow_github_ips :: "world \<Rightarrow> config \<Rightarrow> request \<Rightarrow> effect list \<times> (outcome + unit)" where
  "allow_github_ips w cfg req =
     (if (case github_ips_only cfg of None \<Rightarrow> True | Some b \<Rightarrow> b) then
        (case access_route req of
           [] \<Rightarrow> ([], Inl (Raise IndexError))
         | a # _ \<Rightarrow>
             (case ip_address w a of
                None \<Rightarrow> ([], Inl (Raise ValueError))
              | Some src_ip \<Rightarrow>
                  (case github_meta_hooks w of
                     None \<Rightarrow> ([Http_get meta_url], Inl (Raise RequestException))
                   | Some whitelist \<Rightarrow>
                       (case in_whitelist w src_ip whitelist of
                          Inl e \<Rightarrow> ([Http_get meta_url], Inl (Raise e))
                        | Inr True \<Rightarrow> ([Http_get meta_url], Inr ())
                        | Inr False \<Rightarrow>
                            ([Http_get meta_url, Log ERROR (Ip_not_allowed src_ip)],
                             Inl (Abort 403))))))
      else ([], Inr ()))"

text \<open>Lines 96 to 115. The two-name unpacking of line 105 raises \<^verbatim>\<open>ValueError\<close>
  unless the split gives exactly two pieces.\<close>

definition configured_secret :: "config \<Rightarrow> string" where
  "configured_secret cfg = (case enforce_secret cfg of None \<Rightarrow> [] | Some s \<Rightarrow> s)"

definition check_secret :: "world \<Rightarrow> config \<Rightarrow> request \<Rightarrow> effect list \<times> (outcome + unit)" where
  "check_secret w cfg req =
     (let secret = configured_secret cfg in
      if secret \<noteq> [] then
        (case x_hub_signature req of
           None \<Rightarrow> ([Log WARNING No_signature], Inl (Abort 403))
         | Some header_signature \<Rightarrow>
             (case str_split CHR ''='' header_signature of
                [sha_name, signature] \<Rightarrow>
                  if sha_name \<noteq> ''sha1'' then
                    ([Log WARNING (Unsupported_mech sha_name)], Inl (Abort 501))
                  else
                    (case constant_time_compare
                            (hexdigest (hmac_sha1 w secret (req_data req))) signature of
                       Inl e \<Rightarrow> ([], Inl (Raise e))
                     | Inr True \<Rightarrow> ([], Inr ())
                     | Inr False \<Rightarrow> ([Log WARNING Invalid_digest], Inl (Abort 403)))
              | _ \<Rightarrow> ([], Inl (Raise ValueError))))
      else ([], Inr ()))"

section \<open>Hook resolution\<close>

text \<open>Lines 171 to 186: the candidate paths, appended in the source's order, and the
  names the handler logs while it builds them.\<close>

definition possible_hooks :: "(json \<Rightarrow> string) \<Rightarrow> string \<Rightarrow> string \<Rightarrow> json \<Rightarrow> json \<Rightarrow> string list" where
  "possible_hooks r hooks event name branch =
     (let n = py_str r name;
          b = py_str r branch;
          scripts0 = [];
          scripts1 =
            (if truthy branch \<and> truthy name then
               scripts0 @
               [path_join hooks (event @ ''-'' @ n @ ''-'' @ b),
                path_join hooks (event @ ''-'' @ n @ ''-'' @ b @ ''-background'')]
             else scripts0);
          scripts2 =
            (if truthy name then
               scripts1 @
               [path_join hooks (event @ ''-'' @ n),
                path_join hooks (event @ ''-'' @ n @ ''-background'')]
             else scripts1)
      in scripts2 @
         [path_join hooks event,
          path_join hooks (event @ ''-background''),
          path_join hooks ''all'',
          path_join hooks ''all-background''])"

definition trying_logs :: "(json \<Rightarrow> string) \<Rightarrow> string \<Rightarrow> json \<Rightarrow> json \<Rightarrow> effect list" where
  "trying_logs r event name branch =
     (let n = py_str r name; b = py_str r branch in
      (if truthy branch \<and> truthy name then
         [Log INFO (Trying (event @ ''-'' @ n @ ''-'' @ b)),
          Log INFO (Trying (event @ ''-'' @ n @ ''-'' @ b @ ''-background''))]
       else []) @
      (if truthy name then
         [Log INFO (Trying (event @ ''-'' @ n)),
          Log INFO (Trying (event @ ''-'' @ n @ ''-background''))]
       else []))"

text \<open>Line 189.\<close>

definition check_permissions :: "world \<Rightarrow> string list \<Rightarrow> string list" where
  "check_permissions w scripts = filter (\<lambda>s. isfile w s \<and> access_x_ok w s) scripts"

section \<open>Dispatch\<close>

text \<open>
  The state of the loop of lines 199 to 236: the dict \<open>ran\<close> (its items in insertion
  order; an assignment to a key it has replaces the value in place), the number of
  temporary files created so far, and the effects so far.
\<close>

record run_state =
  ran :: "(string \<times> json) list"
  n_tmp :: nat
  trace :: "effect list"

text \<open>
  \<^verbatim>\<open>Popen(argv, stdout=PIPE, stderr=PIPE)\<close> of lines 210 and 220: the exception it
  raises, if any. An argument with a NUL character is refused with \<^verbatim>\<open>ValueError\<close>
  before anything is started; otherwise the operating system may refuse to start the
  process, which is an \<^verbatim>\<open>OSError\<close>.
\<close>

definition popen :: "world \<Rightarrow> string list \<Rightarrow> exn option" where
  "popen w argv =
     (if list_ex (\<lambda>a. CHR 0x00 \<in> set a) argv then Some ValueError
      else if popen_oserror w argv then Some OSError
      else None)"

text \<open>One turn of the loop, for the script \<open>s\<close>. The result is the exception that
  ends the loop, if any, and the state. A background hook has its temporary file
  created and written before \<^verbatim>\<open>Popen\<close> is called.\<close>

definition run_script ::
  "world \<Rightarrow> string \<Rightarrow> string \<Rightarrow> json \<Rightarrow> json \<Rightarrow> json \<Rightarrow> string \<Rightarrow> run_state \<Rightarrow> exn option \<times> run_state" where
  "run_script w tmpfile event name branch payload s st =
     (if endswith s ''-background'' then
        (let tmpfile2 = mkstemp w (n_tmp st);
             argv = [s, tmpfile2, event, py_str (repr w) name, py_str (repr w) branch];
             created = trace st @ [Mkstemp tmpfile2, Write_json tmpfile2 payload]
         in (case popen w argv of
               Some e \<Rightarrow> (Some e, st\<lparr>n_tmp := Suc (n_tmp st), trace := created\<rparr>)
             | None \<Rightarrow>
                 (None,
                  st\<lparr>ran := AList.update (basename s)
                              (JObj [(''backgrounded'', JStr ''yes'')]) (ran st),
                     n_tmp := Suc (n_tmp st),
                     trace := created @ [Popen argv]\<rparr>)))
      else
        (let argv = [s, tmpfile, event, py_str (repr w) name, py_str (repr w) branch];
             tr = trace st @ [Popen argv, Communicate argv]
         in (case popen w argv of
               Some e \<Rightarrow> (Some e, st)
             | None \<Rightarrow>
                 (case communicate w argv of
                    (returncode, stdout, stderr) \<Rightarrow>
                      (case decode_utf8 stdout of
                         Inl e \<Rightarrow> (Some e, st\<lparr>trace := tr\<rparr>)
                       | Inr out \<Rightarrow>
                           (case decode_utf8 stderr of
                              Inl e \<Rightarrow> (Some e, st\<lparr>trace := tr\<rparr>)
                            | Inr err \<Rightarrow>
                                (None,
                                 st\<lparr>ran := AList.update (basename s)
                                             (JObj [(''returncode'', JNum returncode),
                                                    (''stdout'', JStr out),
                                                    (''stderr'', JStr err)]) (ran st),
                                    trace := tr @
                                      (if returncode \<noteq> 0
                                       then [Log ERROR (Hook_failed s returncode stderr)]
                                       else [])\<rparr>)))))))"

fun run_scripts ::
  "world \<Rightarrow> string \<Rightarrow> string \<Rightarrow> json \<Rightarrow> json \<Rightarrow> json \<Rightarrow> string list \<Rightarrow> run_state \<Rightarrow> exn option \<times> run_state" where
  "run_scripts w tmpfile event name branch payload [] st = (None, st)"
| "run_scripts w tmpfile event name branch payload (s # ss) st =
     (case run_script w tmpfile event name branch payload s st of
        (Some e, st') \<Rightarrow> (Some e, st')
      | (None, st') \<Rightarrow> run_scripts w tmpfile event name branch payload ss st')"

text \<open>Lines 171 to 247: from the candidate list to the response.\<close>

definition dispatch ::
  "world \<Rightarrow> config \<Rightarrow> string \<Rightarrow> string \<Rightarrow> json \<Rightarrow> json \<Rightarrow> json \<Rightarrow> outcome \<times> effect list" where
  "dispatch w cfg hooks event name branch payload =
     (let logs = trying_logs (repr w) event name branch;
          scripts = check_permissions w (possible_hooks (repr w) hooks event name branch)
      in if scripts = [] then (Return (Dumps (JObj [(''status'', JStr ''nop'')])), logs)
         else
           (let tmpfile = mkstemp w 0;
                st0 = \<lparr>ran = [], n_tmp = 1,
                       trace = logs @ [Mkstemp tmpfile, Write_json tmpfile payload]\<rparr>
            in (case run_scripts w tmpfile event name branch payload scripts st0 of
                  (Some e, st) \<Rightarrow> (Raise e, trace st)
                | (None, st) \<Rightarrow>
                    (let tr = trace st @ [Remove tmpfile] in
                     if (case return_scripts_info cfg of None \<Rightarrow> False | Some i \<Rightarrow> i) then
                       (Return (Dumps_sorted_indent (JObj (ran st))),
                        tr @ [Log INFO (Output (JObj (ran st)))])
                     else (Return (Dumps (JObj [(''status'', JStr ''done'')])), tr)))))"

section \<open>The handler\<close>

text \<open>Lines 117 to 169, then the dispatch.\<close>

definition handle_event :: "world \<Rightarrow> config \<Rightarrow> request \<Rightarrow> outcome \<times> effect list" where
  "handle_event w cfg req =
     (let event = (case x_github_event req of None \<Rightarrow> ''ping'' | Some e \<Rightarrow> e) in
      if event = ''ping'' then (Return (Dumps (JObj [(''msg'', JStr ''pong'')])), [])
      else
        (case get_json req of
           None \<Rightarrow> (Abort 400, [Log WARNING Parsing_failed])
         | Some payload \<Rightarrow>
             (case determine_branch event payload of
                Inl e \<Rightarrow> (Raise e, [])
              | Inr branch \<Rightarrow>
                  (case repository_name payload of
                     Inl e \<Rightarrow> (Raise e, [])
                   | Inr name \<Rightarrow>
                       (let meta = JObj [(''name'', name), (''branch'', branch),
                                         (''event'', JStr event)];
                            logs = [Log INFO (Metadata meta)]
                        in (case push_deleted event payload of
                              Inl e \<Rightarrow> (Raise e, logs)
                            | Inr True \<Rightarrow>
                                (Return (Dumps (JObj [(''status'', JStr ''skipped'')])),
                                 logs @ [Log INFO (Skipping meta)])
                            | Inr False \<Rightarrow>
                                (case dispatch w cfg (hooks_dir w cfg) event name branch payload of
                                   (out, tr) \<Rightarrow> (out, logs @ tr))))))))"

text \<open>Lines 54 to 247: \<^verbatim>\<open>index\<close>, the handler of \<^verbatim>\<open>POST /\<close>.\<close>

definition index :: "world \<Rightarrow> request \<Rightarrow> outcome \<times> effect list" where
  "index w req =
     (if req_method req \<noteq> ''POST'' then (Abort 405, [])
      else
        (let cfg = load_config w in
         case allow_github_ips w cfg req of
           (l1, Inl out) \<Rightarrow> (out, l1)
         | (l1, Inr _) \<Rightarrow>
             (case check_secret w cfg req of
                (l2, Inl out) \<Rightarrow> (out, l1 @ l2)
              | (l2, Inr _) \<Rightarrow>
                  (case handle_event w cfg req of
                     (out, l3) \<Rightarrow> (out, l1 @ l2 @ l3)))))"

section \<open>Reading a trace\<close>

fun is_mkstemp :: "effect \<Rightarrow> bool" where
  "is_mkstemp (Mkstemp f) = True"
| "is_mkstemp e = False"

fun is_popen :: "effect \<Rightarrow> bool" where
  "is_popen (Popen argv) = True"
| "is_popen e = False"

fun is_remove :: "effect \<Rightarrow> bool" where
  "is_remove (Remove f) = True"
| "is_remove e = False"

text \<open>A trace in which no temporary file is created and no process is started.\<close>

definition no_resources :: "effect list \<Rightarrow> bool" where
  "no_resources tr = list_all (\<lambda>e. \<not> is_mkstemp e \<and> \<not> is_popen e) tr"

text \<open>The argument vectors of the processes started, in the order of their start.\<close>

fun popens :: "effect list \<Rightarrow> string list list" where
  "popens [] = []"
| "popens (Popen argv # es) = argv # popens es"
| "popens (e # es) = popens es"

text \<open>The temporary files created and the files removed, in order.\<close>

fun mkstemps :: "effect list \<Rightarrow> string list" where
  "mkstemps [] = []"
| "mkstemps (Mkstemp f # es) = f # mkstemps es"
| "mkstemps (e # es) = mkstemps es"

fun removes :: "effect list \<Rightarrow> string list" where
  "removes [] = []"
| "removes (Remove f # es) = f # removes es"
| "removes (e # es) = removes es"

text \<open>The output and the error output of the hook started with \<open>argv\<close> are both
  valid UTF-8, so that lines 228 and 229 decode them.\<close>

definition output_decodes :: "world \<Rightarrow> string list \<Rightarrow> bool" where
  "output_decodes w argv =
     (case communicate w argv of
        (returncode, stdout, stderr) \<Rightarrow>
          utf8_valid (map of_char stdout) \<and> utf8_valid (map of_char stderr))"

section \<open>Concrete surroundings\<close>

text \<open>
  A configuration with the origin filter off, the given secret, script information
  returned and the hooks under \<^verbatim>\<open>/hooks\<close>; a world with that configuration, the given
  executable files and the given behaviour of hooks, in which every process can be
  started and whose digest function is a stand-in (key and message, byte by byte);
  and a \<^verbatim>\<open>POST\<close> request with the given
  signature header, event and payload.
\<close>

definition example_config :: "string \<Rightarrow> config" where
  "example_config secret =
     \<lparr>github_ips_only = Some False, enforce_secret = Some secret,
      return_scripts_info = Some True, hooks_path = Some ''/hooks''\<rparr>"

definition example_world ::
  "string \<Rightarrow> string list \<Rightarrow> (string list \<Rightarrow> int \<times> string \<times> string) \<Rightarrow> world" where
  "example_world secret files run =
     \<lparr>app_dir = ''/app'',
      config_json = Some (example_config secret),
      github_meta_hooks = Some [],
      ip_address = (\<lambda>a. None),
      ip_network = (\<lambda>n. None),
      hmac_sha1 = (\<lambda>key msg. map of_char (key @ msg)),
      isfile = (\<lambda>s. s \<in> set files),
      access_x_ok = (\<lambda>s. s \<in> set files),
      mkstemp = (\<lambda>n. ''/tmp/tmp'' @ str_nat n),
      popen_oserror = (\<lambda>argv. False),
      communicate = run,
      repr = (\<lambda>v. ''?'')\<rparr>"

definition example_request :: "string option \<Rightarrow> string \<Rightarrow> json \<Rightarrow> request" where
  "example_request signature event payload =
     \<lparr>req_method = ''POST'',
      access_route = [''192.0.2.1''],
      x_hub_signature = signature,
      x_github_event = Some event,
      req_data = ''m'',
      get_json = Some payload\<rparr>"

text \<open>A push payload for the branch \<open>main\<close> of \<open>repo1\<close> that deletes nothing, and hooks
  of which \<^verbatim>\<open>/hooks/push\<close> prints the single byte \<open>0xFF\<close> and every other one
  prints nothing; all of them exit with 0.\<close>

definition example_push :: json where
  "example_push =
     JObj [(''ref'', JStr ''refs/heads/main''), (''deleted'', JBool False),
           (''repository'', JObj [(''name'', JStr ''repo1'')])]"

definition garbled_push :: "string list \<Rightarrow> int \<times> string \<times> string" where
  "garbled_push argv =
     (case argv of
        [] \<Rightarrow> (0, [], [])
      | s # args \<Rightarrow> if s = ''/hooks/push'' then (0, [CHR 0xFF], []) else (0, [], []))"

section \<open>Splitting strings\<close>

lemma str_split_max_step:
  "c \<notin> set a \<Longrightarrow> str_split_max c (Suc n) (a @ c # r) = a # str_split_max c n r"
  by (induction a) auto

lemma str_split_length: "length (str_split c s) = Suc (count_list s c)"
  by (induction s) (auto split: list.splits)

lemma str_split_no_sep: "c \<notin> set s \<Longrightarrow> str_split c s = [s]"
  by (induction s) auto

lemma str_split_step: "c \<notin> set a \<Longrightarrow> str_split c (a @ c # r) = a # str_split c r"
  by (induction a) auto

lemma str_split_two:
  "c \<notin> set a \<Longrightarrow> c \<notin> set b \<Longrightarrow> str_split c (a @ c # b) = [a, b]"
  by (simp add: str_split_step str_split_no_sep)

section \<open>The branch of a push event\<close>

text \<open>
  C1, as the code has it: for a push event whose payload has no \<open>ref_type\<close> and no
  \<open>pull_request\<close> field and whose \<open>ref\<close> is \<open>refs/heads/foo/bar\<close>, the derived
  branch is \<open>foo/bar\<close>. At most two splits are made, so the third piece is all that
  follows the second slash, further slashes included.
\<close>

theorem push_branch_keeps_slashes:
  assumes "map_of kvs ''ref_type'' = None"
    and "map_of kvs ''pull_request'' = None"
    and "map_of kvs ''ref'' = Some (JStr ''refs/heads/foo/bar'')"
  shows "determine_branch ''push'' (JObj kvs) = Inr (JStr ''foo/bar'')"
  using assms
  by (simp add: determine_branch_def branch_cases_def list_index_def numeral_2_eq_2)

theorem push_branch_keeps_slashes_witness:
  "map_of [(''ref'', JStr ''refs/heads/foo/bar'')] ''ref_type'' = None
   \<and> map_of [(''ref'', JStr ''refs/heads/foo/bar'')] ''pull_request'' = None
   \<and> map_of [(''ref'', JStr ''refs/heads/foo/bar'')] ''ref'' = Some (JStr ''refs/heads/foo/bar'')
   \<and> determine_branch ''push'' (JObj [(''ref'', JStr ''refs/heads/foo/bar'')])
       = Inr (JStr ''foo/bar'')"
  using push_branch_keeps_slashes [of "[(''ref'', JStr ''refs/heads/foo/bar'')]"]
  by simp

text \<open>C1 as the specification states it, with the branch \<open>foo\<close>, fails on the payload
  that has the \<open>ref\<close> field alone.\<close>

theorem push_branch_not_third_segment:
  "determine_branch ''push'' (JObj [(''ref'', JStr ''refs/heads/foo/bar'')]) \<noteq> Inr (JStr ''foo'')"
  by (simp add: determine_branch_def branch_cases_def list_index_def numeral_2_eq_2)

text \<open>In general the branch of a push event is what follows the second slash.\<close>

lemma push_branch_remainder:
  assumes "map_of kvs ''ref_type'' = None"
    and "map_of kvs ''pull_request'' = None"
    and "map_of kvs ''ref'' = Some (JStr (a @ ''/'' @ b @ ''/'' @ rest))"
    and "CHR ''/'' \<notin> set a" and "CHR ''/'' \<notin> set b"
  shows "determine_branch ''push'' (JObj kvs) = Inr (JStr rest)"
  using assms
  by (simp add: determine_branch_def branch_cases_def list_index_def numeral_2_eq_2
      str_split_max_step)

section \<open>Signature verification\<close>

lemma hexdigit_in: "hexdigit n \<in> set ''0123456789abcdef''"
  unfolding hexdigit_def by (rule nth_mem) simp

lemma hexdigest_chars: "set (hexdigest bs) \<subseteq> set ''0123456789abcdef''"
  unfolding hexdigest_def using hexdigit_in by (induction bs) auto

lemma hexdigest_ascii: "ascii_only (hexdigest bs)"
proof -
  have "\<forall>c \<in> set ''0123456789abcdef''. (of_char c :: nat) < 128" by simp
  with hexdigest_chars [of bs] show ?thesis
    unfolding ascii_only_def list_all_iff by blast
qed

lemma hexdigest_no_equals: "CHR ''='' \<notin> set (hexdigest bs)"
proof -
  have "CHR ''='' \<notin> set ''0123456789abcdef''" by simp
  with hexdigest_chars [of bs] show ?thesis by blast
qed

text \<open>Both definitions of \<^verbatim>\<open>constant_time_compare\<close> decide equality.\<close>

lemma xor_accumulate_zero:
  "length xs = length ys \<Longrightarrow> xor_accumulate r xs ys = 0 \<longleftrightarrow> r = 0 \<and> xs = ys"
proof (induction xs ys arbitrary: r rule: list_induct2)
  case Nil
  then show ?case by simp
next
  case (Cons x xs y ys)
  have "(of_char x XOR of_char y :: nat) = 0 \<longleftrightarrow> x = y"
    by (metis of_char_eq_iff xor_self_eq xor.right_neutral xor.assoc)
  then show ?case using Cons by (auto simp: or_eq_0_iff)
qed

lemma constant_time_compare_fallback_eq:
  "constant_time_compare_fallback val1 val2 \<longleftrightarrow> val1 = val2"
  by (auto simp: constant_time_compare_fallback_def xor_accumulate_zero)

lemma constant_time_compare_eq:
  "ascii_only val1 \<Longrightarrow> ascii_only val2 \<Longrightarrow>
   constant_time_compare val1 val2 = Inr (val1 = val2)"
  by (simp add: constant_time_compare_def compare_digest_def)

lemma check_secret_off:
  "configured_secret cfg = [] \<Longrightarrow> check_secret w cfg req = ([], Inr ())"
  by (simp add: check_secret_def)

lemma check_secret_missing:
  "configured_secret cfg \<noteq> [] \<Longrightarrow> x_hub_signature req = None
   \<Longrightarrow> check_secret w cfg req = ([Log WARNING No_signature], Inl (Abort 403))"
  by (simp add: check_secret_def)

lemma check_secret_unsupported:
  "configured_secret cfg \<noteq> [] \<Longrightarrow>
   x_hub_signature req = Some (sha_name @ ''='' @ signature) \<Longrightarrow>
   CHR ''='' \<notin> set sha_name \<Longrightarrow> CHR ''='' \<notin> set signature \<Longrightarrow> sha_name \<noteq> ''sha1''
   \<Longrightarrow> check_secret w cfg req = ([Log WARNING (Unsupported_mech sha_name)], Inl (Abort 501))"
  by (simp add: check_secret_def str_split_two)

lemma check_secret_mismatch:
  "configured_secret cfg \<noteq> [] \<Longrightarrow>
   x_hub_signature req = Some (''sha1'' @ ''='' @ signature) \<Longrightarrow>
   CHR ''='' \<notin> set signature \<Longrightarrow> ascii_only signature \<Longrightarrow>
   signature \<noteq> hexdigest (hmac_sha1 w (configured_secret cfg) (req_data req))
   \<Longrightarrow> check_secret w cfg req = ([Log WARNING Invalid_digest], Inl (Abort 403))"
  using str_split_two [of "CHR ''=''" "''sha1''" signature]
  by (auto simp: check_secret_def constant_time_compare_def compare_digest_def hexdigest_ascii)

lemma check_secret_match:
  "configured_secret cfg \<noteq> [] \<Longrightarrow>
   x_hub_signature req =
     Some (''sha1'' @ ''='' @ hexdigest (hmac_sha1 w (configured_secret cfg) (req_data req)))
   \<Longrightarrow> check_secret w cfg req = ([], Inr ())"
  using str_split_two [of "CHR ''=''" "''sha1''"
      "hexdigest (hmac_sha1 w (configured_secret cfg) (req_data req))"]
  by (auto simp: check_secret_def constant_time_compare_def compare_digest_def
      hexdigest_ascii hexdigest_no_equals)

lemma check_secret_unpack:
  assumes "configured_secret cfg \<noteq> []" and "x_hub_signature req = Some h"
    and "count_list h CHR ''='' \<noteq> 1"
  shows "check_secret w cfg req = ([], Inl (Raise ValueError))"
proof -
  have "length (str_split CHR ''='' h) \<noteq> 2"
    using assms(3) by (simp add: str_split_length)
  then have "(case str_split CHR ''='' h of [x, y] \<Rightarrow> f x y | _ \<Rightarrow> d) = d"
    for f and d :: "effect list \<times> (outcome + unit)"
    by (auto split: list.splits)
  then show ?thesis using assms(1,2) by (simp add: check_secret_def)
qed

lemma index_after_origin:
  assumes "req_method req = ''POST''"
    and "allow_github_ips w (load_config w) req = (l1, Inr ())"
  shows "index w req =
     (case check_secret w (load_config w) req of
        (l2, Inl out) \<Rightarrow> (out, l1 @ l2)
      | (l2, Inr u) \<Rightarrow>
          (fst (handle_event w (load_config w) req),
           l1 @ l2 @ snd (handle_event w (load_config w) req)))"
  using assms by (simp add: index_def Let_def split: prod.splits sum.splits)

text \<open>
  C2: once the method and the origin checks have passed, a request to a handler with
  a non-empty secret is aborted with 403 when it has no \<^verbatim>\<open>X-Hub-Signature\<close> header,
  with 501 when the header \<open>name=digest\<close> names an algorithm other than \<open>sha1\<close>, and
  with 403 when the header is \<open>sha1=digest\<close> and the digest differs from the
  hexadecimal HMAC-SHA1 of the raw body under the secret; with the matching digest the
  request goes on to event handling, with no effect of the check. With an empty secret
  the check is skipped whatever the header is. The comparison is equality of the two
  digests; its timing is outside the model.
\<close>

theorem signature_enforced:
  assumes "req_method req = ''POST''"
    and "allow_github_ips w (load_config w) req = (l1, Inr ())"
  shows
   "(configured_secret (load_config w) \<noteq> [] \<and> x_hub_signature req = None
       \<longrightarrow> index w req = (Abort 403, l1 @ [Log WARNING No_signature]))
  \<and> (configured_secret (load_config w) \<noteq> []
       \<and> x_hub_signature req = Some (sha_name @ ''='' @ signature)
       \<and> CHR ''='' \<notin> set sha_name \<and> CHR ''='' \<notin> set signature \<and> sha_name \<noteq> ''sha1''
       \<longrightarrow> index w req = (Abort 501, l1 @ [Log WARNING (Unsupported_mech sha_name)]))
  \<and> (configured_secret (load_config w) \<noteq> []
       \<and> x_hub_signature req = Some (''sha1'' @ ''='' @ signature)
       \<and> CHR ''='' \<notin> set signature \<and> ascii_only signature
       \<and> signature \<noteq> hexdigest (hmac_sha1 w (configured_secret (load_config w)) (req_data req))
       \<longrightarrow> index w req = (Abort 403, l1 @ [Log WARNING Invalid_digest]))
  \<and> (configured_secret (load_config w) \<noteq> []
       \<and> x_hub_signature req =
           Some (''sha1'' @ ''='' @
             hexdigest (hmac_sha1 w (configured_secret (load_config w)) (req_data req)))
       \<longrightarrow> index w req =
             (fst (handle_event w (load_config w) req),
              l1 @ snd (handle_event w (load_config w) req)))
  \<and> (configured_secret (load_config w) = []
       \<longrightarrow> index w req =
             (fst (handle_event w (load_config w) req),
              l1 @ snd (handle_event w (load_config w) req)))"
proof (intro conjI impI)
  assume "configured_secret (load_config w) \<noteq> [] \<and> x_hub_signature req = None"
  then show "index w req = (Abort 403, l1 @ [Log WARNING No_signature])"
    by (simp add: index_after_origin [OF assms] check_secret_missing)
next
  assume "configured_secret (load_config w) \<noteq> []
       \<and> x_hub_signature req = Some (sha_name @ ''='' @ signature)
       \<and> CHR ''='' \<notin> set sha_name \<and> CHR ''='' \<notin> set signature \<and> sha_name \<noteq> ''sha1''"
  then have "check_secret w (load_config w) req
      = ([Log WARNING (Unsupported_mech sha_name)], Inl (Abort 501))"
    using check_secret_unsupported [where sha_name = sha_name and signature = signature]
    by simp
  then show "index w req = (Abort 501, l1 @ [Log WARNING (Unsupported_mech sha_name)])"
    by (simp add: index_after_origin [OF assms])
next
  assume "configured_secret (load_config w) \<noteq> []
       \<and> x_hub_signature req = Some (''sha1'' @ ''='' @ signature)
       \<and> CHR ''='' \<notin> set signature \<and> ascii_only signature
       \<and> signature \<noteq> hexdigest (hmac_sha1 w (configured_secret (load_config w)) (req_data req))"
  then have "check_secret w (load_config w) req = ([Log WARNING Invalid_digest], Inl (Abort 403))"
    using check_secret_mismatch [where signature = signature] by simp
  then show "index w req = (Abort 403, l1 @ [Log WARNING Invalid_digest])"
    by (simp add: index_after_origin [OF assms])
next
  assume "configured_secret (load_config w) \<noteq> []
       \<and> x_hub_signature req =
           Some (''sha1'' @ ''='' @
             hexdigest (hmac_sha1 w (configured_secret (load_config w)) (req_data req)))"
  then have "check_secret w (load_config w) req = ([], Inr ())"
    using check_secret_match by simp
  then show "index w req =
             (fst (handle_event w (load_config w) req),
              l1 @ snd (handle_event w (load_config w) req))"
    by (simp add: index_after_origin [OF assms])
next
  assume "configured_secret (load_config w) = []"
  then show "index w req =
             (fst (handle_event w (load_config w) req),
              l1 @ snd (handle_event w (load_config w) req))"
    by (simp add: index_after_origin [OF assms] check_secret_off)
qed

text \<open>
  C10: with a non-empty secret, a signature header that does not contain exactly one
  \<open>=\<close> makes the two-name unpacking of line 105 raise \<^verbatim>\<open>ValueError\<close>, which nothing
  catches: the handler ends with that exception and not with a 403 or 501 abort.
\<close>

theorem malformed_signature_header_raises:
  assumes "req_method req = ''POST''"
    and "allow_github_ips w (load_config w) req = (l1, Inr ())"
    and "configured_secret (load_config w) \<noteq> []"
    and "x_hub_signature req = Some h"
    and "count_list h CHR ''='' \<noteq> 1"
  shows "index w req = (Raise ValueError, l1)"
  by (simp add: index_after_origin [OF assms(1,2)] check_secret_unpack [OF assms(3,4,5)])


lemma example_hexdigest: "hexdigest (map of_char ''km'') = ''6b6d''"
  by (simp add: hexdigest_def hexdigit_def)

lemma example_post: "req_method (example_request s e p) = ''POST''"
  by (simp add: example_request_def)

lemma example_origin:
  "allow_github_ips (example_world k fs run) (load_config (example_world k fs run)) r = ([], Inr ())"
  by (simp add: allow_github_ips_def load_config_def example_world_def example_config_def)

lemma example_secret:
  "configured_secret (load_config (example_world k fs run)) = k"
  by (simp add: configured_secret_def load_config_def example_world_def example_config_def)

lemma example_ping:
  "handle_event w cfg (example_request s ''ping'' p) = (Return (Dumps (JObj [(''msg'', JStr ''pong'')])), [])"
  by (simp add: handle_event_def example_request_def)

theorem signature_enforced_witness:
  "index (example_world ''k'' [] (\<lambda>argv. (0, [], []))) (example_request None ''ping'' JNull)
     = (Abort 403, [Log WARNING No_signature])
 \<and> index (example_world ''k'' [] (\<lambda>argv. (0, [], []))) (example_request (Some ''md5=6b6d'') ''ping'' JNull)
     = (Abort 501, [Log WARNING (Unsupported_mech ''md5'')])
 \<and> index (example_world ''k'' [] (\<lambda>argv. (0, [], []))) (example_request (Some ''sha1=0000'') ''ping'' JNull)
     = (Abort 403, [Log WARNING Invalid_digest])
 \<and> index (example_world ''k'' [] (\<lambda>argv. (0, [], []))) (example_request (Some ''sha1=6b6d'') ''ping'' JNull)
     = (Return (Dumps (JObj [(''msg'', JStr ''pong'')])), [])
 \<and> index (example_world [] [] (\<lambda>argv. (0, [], []))) (example_request (Some ''nonsense'') ''ping'' JNull)
     = (Return (Dumps (JObj [(''msg'', JStr ''pong'')])), [])"
proof -
  have data: "req_data (example_request s e p) = ''m''" for s e p
    by (simp add: example_request_def)
  have hdr: "x_hub_signature (example_request s e p) = s" for s e p
    by (simp add: example_request_def)
  have mac: "hmac_sha1 (example_world k fs run) a b = map of_char (a @ b)" for k fs run a b
    by (simp add: example_world_def)
  have asc: "ascii_only ''0000''" by (simp add: ascii_only_def)
  let ?W = "example_world ''k'' [] (\<lambda>argv. (0, [], []))"
  let ?V = "example_world [] [] (\<lambda>argv. (0, [], []))"
  show ?thesis
    using
      signature_enforced [where w = ?W and req = "example_request None ''ping'' JNull"
        and ?l1.0 = "[]", OF example_post example_origin]
      signature_enforced [where w = ?W and req = "example_request (Some ''md5=6b6d'') ''ping'' JNull"
        and ?l1.0 = "[]" and sha_name = "''md5''" and signature = "''6b6d''",
        OF example_post example_origin]
      signature_enforced [where w = ?W and req = "example_request (Some ''sha1=0000'') ''ping'' JNull"
        and ?l1.0 = "[]" and signature = "''0000''", OF example_post example_origin]
      signature_enforced [where w = ?W and req = "example_request (Some ''sha1=6b6d'') ''ping'' JNull"
        and ?l1.0 = "[]", OF example_post example_origin]
      signature_enforced [where w = ?V and req = "example_request (Some ''nonsense'') ''ping'' JNull"
        and ?l1.0 = "[]", OF example_post example_origin]
    by (simp add: example_secret example_ping data hdr mac asc example_hexdigest [simplified])
qed

theorem malformed_signature_header_raises_witness:
  "index (example_world ''k'' [] (\<lambda>argv. (0, [], []))) (example_request (Some ''sha1'') ''ping'' JNull)
     = (Raise ValueError, [])
 \<and> index (example_world ''k'' [] (\<lambda>argv. (0, [], []))) (example_request (Some ''sha1=abc=def'') ''ping'' JNull)
     = (Raise ValueError, [])"
proof -
  have hdr: "x_hub_signature (example_request s e p) = s" for s e p
    by (simp add: example_request_def)
  let ?W = "example_world ''k'' [] (\<lambda>argv. (0, [], []))"
  show ?thesis
    using
      malformed_signature_header_raises [where w = ?W
        and req = "example_request (Some ''sha1'') ''ping'' JNull" and ?l1.0 = "[]"
        and h = "''sha1''", OF example_post example_origin]
      malformed_signature_header_raises [where w = ?W
        and req = "example_request (Some ''sha1=abc=def'') ''ping'' JNull" and ?l1.0 = "[]"
        and h = "''sha1=abc=def''", OF example_post example_origin]
    by (simp add: example_secret hdr)
qed

section \<open>Rejections come before any resource\<close>

lemma no_resources_append: "no_resources (a @ b) = (no_resources a \<and> no_resources b)"
  by (simp add: no_resources_def)

lemma allow_github_ips_no_resources: "no_resources (fst (allow_github_ips w cfg req))"
  by (simp add: allow_github_ips_def no_resources_def split: list.splits option.splits sum.splits bool.splits)

lemma check_secret_no_resources: "no_resources (fst (check_secret w cfg req))"
  by (simp add: check_secret_def no_resources_def Let_def split: list.splits option.splits sum.splits bool.splits)

lemma dispatch_no_abort: "fst (dispatch w cfg hooks event name branch payload) \<noteq> Abort c"
  by (simp add: dispatch_def Let_def split: prod.splits option.splits)

lemma dispatch_not_abort:
  "dispatch w cfg hooks event name branch payload = (Abort c, tr) \<Longrightarrow> False"
  using dispatch_no_abort [of w cfg hooks event name branch payload c] by simp

lemma handle_event_abort:
  assumes "fst (handle_event w cfg req) = Abort c"
  shows "handle_event w cfg req = (Abort 400, [Log WARNING Parsing_failed])"
  using assms
  by (auto simp: handle_event_def Let_def dest: dispatch_not_abort
      split: option.splits sum.splits bool.splits prod.splits if_splits)

text \<open>
  C9: whenever the handler ends with \<^verbatim>\<open>abort(c)\<close>, the code is 405 (method), 403
  (origin or signature), 501 (algorithm) or 400 (body that does not parse), and up to
  that point no temporary file has been created and no process has been started.
\<close>

theorem rejections_precede_resources:
  assumes "fst (index w req) = Abort c"
  shows "no_resources (snd (index w req)) \<and> c \<in> {400, 403, 405, 501}"
proof (cases "req_method req = ''POST''")
  case False
  then show ?thesis using assms by (simp add: index_def no_resources_def)
next
  case True
  obtain l1 r1 where a: "allow_github_ips w (load_config w) req = (l1, r1)" by fastforce
  obtain l2 r2 where s: "check_secret w (load_config w) req = (l2, r2)" by fastforce
  have q1: "no_resources l1" using allow_github_ips_no_resources [of w "load_config w" req] a by simp
  have q2: "no_resources l2" using check_secret_no_resources [of w "load_config w" req] s by simp
  show ?thesis
  proof (cases r1)
    case (Inl out)
    then have "index w req = (out, l1)" using True a by (simp add: index_def)
    moreover have "out = Abort 403 \<or> (\<exists>e. out = Raise e)"
      using a Inl by (auto simp: allow_github_ips_def split: if_splits list.splits option.splits sum.splits bool.splits)
    ultimately show ?thesis using assms q1 by auto
  next
    case (Inr u)
    note r1 = this
    show ?thesis
    proof (cases r2)
      case (Inl out)
      then have "index w req = (out, l1 @ l2)" using True a s r1 by (simp add: index_def)
      moreover have "out = Abort 403 \<or> out = Abort 501 \<or> (\<exists>e. out = Raise e)"
        using s Inl by (auto simp: check_secret_def Let_def split: if_splits list.splits option.splits sum.splits bool.splits)
      ultimately show ?thesis using assms q1 q2 by (auto simp: no_resources_append)
    next
      case (Inr v)
      then have i: "index w req = (fst (handle_event w (load_config w) req),
          l1 @ l2 @ snd (handle_event w (load_config w) req))"
        using True a s r1 by (simp add: index_def split: prod.splits)
      then have "fst (handle_event w (load_config w) req) = Abort c" using assms by simp
      then have "handle_event w (load_config w) req = (Abort 400, [Log WARNING Parsing_failed])"
        by (rule handle_event_abort)
      then show ?thesis using i assms q1 q2 by (simp add: no_resources_append) (simp add: no_resources_def)
    qed
  qed
qed


theorem rejections_precede_resources_witness:
  "fst (index (example_world [] [''/hooks/push''] (\<lambda>argv. (0, [], [])))
          ((example_request None ''push'' JNull)\<lparr>req_method := ''GET''\<rparr>)) = Abort 405
 \<and> no_resources (snd (index (example_world [] [''/hooks/push''] (\<lambda>argv. (0, [], [])))
          ((example_request None ''push'' JNull)\<lparr>req_method := ''GET''\<rparr>)))
 \<and> fst (index (example_world [] [''/hooks/push''] (\<lambda>argv. (0, [], [])))
          ((example_request None ''push'' JNull)\<lparr>get_json := None\<rparr>)) = Abort 400
 \<and> no_resources (snd (index (example_world [] [''/hooks/push''] (\<lambda>argv. (0, [], [])))
          ((example_request None ''push'' JNull)\<lparr>get_json := None\<rparr>)))
 \<and> fst (index (example_world ''k'' [''/hooks/push''] (\<lambda>argv. (0, [], [])))
          (example_request None ''push'' JNull)) = Abort 403
 \<and> no_resources (snd (index (example_world ''k'' [''/hooks/push''] (\<lambda>argv. (0, [], [])))
          (example_request None ''push'' JNull)))"
proof -
  let ?W = "example_world [] [''/hooks/push''] (\<lambda>argv. (0, [], []))"
  let ?K = "example_world ''k'' [''/hooks/push''] (\<lambda>argv. (0, [], []))"
  let ?r = "example_request None ''push'' JNull"
  have 1: "fst (index ?W (?r\<lparr>req_method := ''GET''\<rparr>)) = Abort 405"
    by (simp add: index_def example_request_def)
  have 2: "fst (index ?W (?r\<lparr>get_json := None\<rparr>)) = Abort 400"
    by (simp add: index_def example_request_def example_world_def example_config_def
        load_config_def allow_github_ips_def check_secret_def configured_secret_def
        handle_event_def)
  have 3: "fst (index ?K ?r) = Abort 403"
    by (simp add: index_def example_request_def example_world_def example_config_def
        load_config_def allow_github_ips_def check_secret_def configured_secret_def)
  show ?thesis
    using rejections_precede_resources [OF 1] rejections_precede_resources [OF 2]
      rejections_precede_resources [OF 3] 1 2 3
    by simp
qed

section \<open>Push events that delete a ref\<close>

lemma index_after_checks:
  assumes "req_method req = ''POST''"
    and "allow_github_ips w (load_config w) req = (l1, Inr ())"
    and "check_secret w (load_config w) req = (l2, Inr ())"
  shows "index w req =
     (fst (handle_event w (load_config w) req),
      l1 @ l2 @ snd (handle_event w (load_config w) req))"
  using assms by (simp add: index_def Let_def split: prod.splits)

text \<open>
  What the code does when line 167 is reached: a push event that has passed the checks
  of the request, whose payload has \<open>deleted\<close> true and whose branch and name have
  been extracted, is answered with \<open>{"status": "skipped"}\<close>; the handler logs the
  metadata twice and does nothing else: no candidate is tried, no temporary file is
  created and no hook is started.
\<close>

lemma push_delete_skipped:
  assumes "req_method req = ''POST''"
    and "allow_github_ips w (load_config w) req = (l1, Inr ())"
    and "check_secret w (load_config w) req = (l2, Inr ())"
    and "x_github_event req = Some ''push''"
    and "get_json req = Some (JObj kvs)"
    and "map_of kvs ''deleted'' = Some (JBool True)"
    and "determine_branch ''push'' (JObj kvs) = Inr branch"
    and "repository_name (JObj kvs) = Inr name"
  shows "index w req =
      (Return (Dumps (JObj [(''status'', JStr ''skipped'')])),
       l1 @ l2 @
       [Log INFO (Metadata (JObj [(''name'', name), (''branch'', branch), (''event'', JStr ''push'')])),
        Log INFO (Skipping (JObj [(''name'', name), (''branch'', branch), (''event'', JStr ''push'')]))])
    \<and> popens (snd (index w req)) = []
    \<and> no_resources (snd (index w req))"
proof -
  have h: "handle_event w (load_config w) req =
      (Return (Dumps (JObj [(''status'', JStr ''skipped'')])),
       [Log INFO (Metadata (JObj [(''name'', name), (''branch'', branch), (''event'', JStr ''push'')])),
        Log INFO (Skipping (JObj [(''name'', name), (''branch'', branch), (''event'', JStr ''push'')]))])"
    using assms(4-8) by (simp add: handle_event_def push_deleted_def Let_def)
  have q1: "no_resources l1"
    using allow_github_ips_no_resources [of w "load_config w" req] assms(2) by simp
  have q2: "no_resources l2"
    using check_secret_no_resources [of w "load_config w" req] assms(3) by simp
  have p: "popens tr = []" if "no_resources tr" for tr
    using that by (induction tr rule: popens.induct) (simp_all add: no_resources_def)
  have i: "index w req =
      (Return (Dumps (JObj [(''status'', JStr ''skipped'')])),
       l1 @ l2 @
       [Log INFO (Metadata (JObj [(''name'', name), (''branch'', branch), (''event'', JStr ''push'')])),
        Log INFO (Skipping (JObj [(''name'', name), (''branch'', branch), (''event'', JStr ''push'')]))])"
    by (simp add: index_after_checks [OF assms(1-3)] h)
  have n: "no_resources (snd (index w req))"
    using q1 q2 by (simp add: i no_resources_append) (simp add: no_resources_def)
  show ?thesis using i n p [OF n] by simp
qed


lemma example_open: "check_secret (example_world [] fs run) (load_config (example_world [] fs run)) r = ([], Inr ())"
  by (simp add: check_secret_off example_secret)

lemma example_event: "x_github_event (example_request s e p) = Some e"
  by (simp add: example_request_def)

lemma example_json: "get_json (example_request s e p) = Some p"
  by (simp add: example_request_def)

lemma push_delete_skipped_example:
  "index (example_world [] [''/hooks/push'', ''/hooks/all''] (\<lambda>argv. (0, [], [])))
     (example_request None ''push''
        (JObj [(''ref'', JStr ''refs/heads/main''), (''deleted'', JBool True),
               (''repository'', JObj [(''name'', JStr ''repo1'')])]))
   = (Return (Dumps (JObj [(''status'', JStr ''skipped'')])),
      [Log INFO (Metadata (JObj [(''name'', JStr ''repo1''), (''branch'', JStr ''main''),
                                 (''event'', JStr ''push'')])),
       Log INFO (Skipping (JObj [(''name'', JStr ''repo1''), (''branch'', JStr ''main''),
                                 (''event'', JStr ''push'')]))])
 \<and> popens (snd (index (example_world [] [''/hooks/push'', ''/hooks/all''] (\<lambda>argv. (0, [], [])))
     (example_request None ''push''
        (JObj [(''ref'', JStr ''refs/heads/main''), (''deleted'', JBool True),
               (''repository'', JObj [(''name'', JStr ''repo1'')])])))) = []
 \<and> no_resources (snd (index (example_world [] [''/hooks/push'', ''/hooks/all''] (\<lambda>argv. (0, [], [])))
     (example_request None ''push''
        (JObj [(''ref'', JStr ''refs/heads/main''), (''deleted'', JBool True),
               (''repository'', JObj [(''name'', JStr ''repo1'')])]))))"
proof -
  let ?kvs = "[(''ref'', JStr ''refs/heads/main''), (''deleted'', JBool True),
               (''repository'', JObj [(''name'', JStr ''repo1'')])]"
  have d: "map_of ?kvs ''deleted'' = Some (JBool True)" by simp
  have b: "determine_branch ''push'' (JObj ?kvs) = Inr (JStr ''main'')"
    by (simp add: determine_branch_def branch_cases_def list_index_def numeral_2_eq_2)
  have n: "repository_name (JObj ?kvs) = Inr (JStr ''repo1'')"
    by (simp add: repository_name_def)
  show ?thesis
    using push_delete_skipped [where w = "example_world [] [''/hooks/push'', ''/hooks/all''] (\<lambda>argv. (0, [], []))"
        and req = "example_request None ''push'' (JObj ?kvs)",
        OF example_post example_origin example_open example_event example_json d b n]
    by (simp add: no_resources_def)
qed

text \<open>
  C4 fails on push events that delete a ref and whose branch or name cannot be
  extracted. With the ref \<open>main\<close>, which has no second slash, the subscript of line
  148 raises \<^verbatim>\<open>IndexError\<close>, which the \<^verbatim>\<open>except KeyError\<close> of line 150 lets
  through; with a \<open>repository\<close> that has no \<open>name\<close>, line 157 raises
  \<^verbatim>\<open>KeyError\<close>. Both requests end with the exception before line 167 is reached,
  and not with \<open>{"status": "skipped"}\<close>.
\<close>

theorem push_delete_not_reached:
  "index (example_world [] [] (\<lambda>argv. (0, [], [])))
     (example_request None ''push'' (JObj [(''ref'', JStr ''main''), (''deleted'', JBool True)]))
   = (Raise IndexError, [])
 \<and> index (example_world [] [] (\<lambda>argv. (0, [], [])))
     (example_request None ''push''
        (JObj [(''ref'', JStr ''refs/heads/main''), (''deleted'', JBool True),
               (''repository'', JObj [])]))
   = (Raise KeyError, [])"
proof -
  have 1: "determine_branch ''push'' (JObj [(''ref'', JStr ''main''), (''deleted'', JBool True)])
      = Inl IndexError"
    by (simp add: determine_branch_def branch_cases_def list_index_def numeral_2_eq_2)
  have 2: "determine_branch ''push''
      (JObj [(''ref'', JStr ''refs/heads/main''), (''deleted'', JBool True),
             (''repository'', JObj [])]) = Inr (JStr ''main'')"
    by (simp add: determine_branch_def branch_cases_def list_index_def numeral_2_eq_2)
  have 3: "repository_name
      (JObj [(''ref'', JStr ''refs/heads/main''), (''deleted'', JBool True),
             (''repository'', JObj [])]) = Inl KeyError"
    by (simp add: repository_name_def)
  show ?thesis
    by (simp add: index_after_checks [OF example_post example_origin example_open]
        handle_event_def example_event example_json 1 2 3)
qed

section \<open>Missing payload keys\<close>

text \<open>
  A key missing on the way to the branch is recovered: the \<^verbatim>\<open>try\<close> of lines 132 to
  153 turns the \<^verbatim>\<open>KeyError\<close> into the branch \<^verbatim>\<open>None\<close>. The two lookups outside it
  are not: \<^verbatim>\<open>payload['repository']['name']\<close> of line 157 and \<^verbatim>\<open>payload['deleted']\<close>
  of line 167 raise \<^verbatim>\<open>KeyError\<close>, and the request fails.
\<close>

lemma determine_branch_recovers_KeyError: "determine_branch event payload \<noteq> Inl KeyError"
  by (simp add: determine_branch_def split: sum.splits exn.splits)

lemma repository_without_name_raises:
  assumes "map_of kvs ''repository'' = Some (JObj repo)" and "map_of repo ''name'' = None"
  shows "repository_name (JObj kvs) = Inl KeyError"
  using assms by (simp add: repository_name_def)

lemma push_without_deleted_raises:
  assumes "x_github_event req = Some ''push''"
    and "get_json req = Some (JObj kvs)"
    and "map_of kvs ''deleted'' = None"
    and "determine_branch ''push'' (JObj kvs) = Inr branch"
    and "repository_name (JObj kvs) = Inr name"
  shows "fst (handle_event w cfg req) = Raise KeyError"
  using assms by (simp add: handle_event_def push_deleted_def Let_def)

text \<open>
  C3 fails on the push event whose payload has \<open>ref\<close> and \<open>repository\<close> and no
  \<open>deleted\<close> key: the lookup of line 167 raises \<^verbatim>\<open>KeyError\<close> after the metadata
  has been logged, and the request ends with that exception.
\<close>

theorem missing_deleted_key_escalates:
  "index (example_world [] [''/hooks/push''] (\<lambda>argv. (0, [], [])))
     (example_request None ''push''
        (JObj [(''ref'', JStr ''refs/heads/main''),
               (''repository'', JObj [(''name'', JStr ''repo1'')])]))
   = (Raise KeyError,
      [Log INFO (Metadata (JObj [(''name'', JStr ''repo1''), (''branch'', JStr ''main''),
                                 (''event'', JStr ''push'')]))])"
proof -
  let ?kvs = "[(''ref'', JStr ''refs/heads/main''),
               (''repository'', JObj [(''name'', JStr ''repo1'')])]"
  have b: "determine_branch ''push'' (JObj ?kvs) = Inr (JStr ''main'')"
    by (simp add: determine_branch_def branch_cases_def list_index_def numeral_2_eq_2)
  have n: "repository_name (JObj ?kvs) = Inr (JStr ''repo1'')"
    by (simp add: repository_name_def)
  show ?thesis
    by (simp add: index_after_checks [OF example_post example_origin example_open]
        handle_event_def example_event example_json b n push_deleted_def Let_def)
qed

section \<open>Hook candidates\<close>

lemma check_permissions_append:
  "check_permissions w (xs @ ys) = check_permissions w xs @ check_permissions w ys"
  by (simp add: check_permissions_def)

lemma trying_logs_no_resources: "no_resources (trying_logs r event name branch)"
  by (simp add: trying_logs_def no_resources_def Let_def)

text \<open>
  C5: for every event, name and branch the candidate list is, in this order, the two
  \<open>event-name-branch\<close> paths when name and branch are both present, the two
  \<open>event-name\<close> paths when the name is present, the two \<open>event\<close> paths and the two
  \<open>all\<close> paths, each the plain name followed by its \<open>-background\<close> form and each
  joined to the hooks directory. (Present is what \<^verbatim>\<open>if name:\<close> tests: not \<^verbatim>\<open>None\<close>
  and not empty.) The filter keeps, in order, the entries that are files and may be
  executed; when it keeps nothing the dispatch answers \<open>{"status": "nop"}\<close> and has
  created no temporary file and started no process.
\<close>

theorem hook_candidates:
  "(truthy name \<and> truthy branch \<longrightarrow>
      possible_hooks r hooks event name branch =
        [path_join hooks (event @ ''-'' @ py_str r name @ ''-'' @ py_str r branch),
         path_join hooks (event @ ''-'' @ py_str r name @ ''-'' @ py_str r branch @ ''-background''),
         path_join hooks (event @ ''-'' @ py_str r name),
         path_join hooks (event @ ''-'' @ py_str r name @ ''-background''),
         path_join hooks event,
         path_join hooks (event @ ''-background''),
         path_join hooks ''all'',
         path_join hooks ''all-background''])
 \<and> (truthy name \<and> \<not> truthy branch \<longrightarrow>
      possible_hooks r hooks event name branch =
        [path_join hooks (event @ ''-'' @ py_str r name),
         path_join hooks (event @ ''-'' @ py_str r name @ ''-background''),
         path_join hooks event,
         path_join hooks (event @ ''-background''),
         path_join hooks ''all'',
         path_join hooks ''all-background''])
 \<and> (\<not> truthy name \<longrightarrow>
      possible_hooks r hooks event name branch =
        [path_join hooks event,
         path_join hooks (event @ ''-background''),
         path_join hooks ''all'',
         path_join hooks ''all-background''])
 \<and> check_permissions w [] = []
 \<and> check_permissions w (s # ss) =
      (if isfile w s \<and> access_x_ok w s then s # check_permissions w ss
       else check_permissions w ss)
 \<and> (check_permissions w (possible_hooks (repr w) hooks event name branch) = [] \<longrightarrow>
      fst (dispatch w cfg hooks event name branch payload)
        = Return (Dumps (JObj [(''status'', JStr ''nop'')]))
      \<and> no_resources (snd (dispatch w cfg hooks event name branch payload)))"
  by (simp add: possible_hooks_def check_permissions_def dispatch_def Let_def
      trying_logs_no_resources)


lemma example_paths:
  "path_join ''/hooks'' (CHR ''p'' # x) = ''/hooks/'' @ CHR ''p'' # x"
  "path_join ''/hooks'' (CHR ''a'' # x) = ''/hooks/'' @ CHR ''a'' # x"
  by (simp_all add: path_join_def startswith_def endswith_def)

theorem hook_candidates_witness:
  "possible_hooks (\<lambda>v. ''?'') ''/hooks'' ''push'' (JStr ''repo1'') (JStr ''main'') =
     [''/hooks/push-repo1-main'', ''/hooks/push-repo1-main-background'',
      ''/hooks/push-repo1'', ''/hooks/push-repo1-background'',
      ''/hooks/push'', ''/hooks/push-background'', ''/hooks/all'', ''/hooks/all-background'']
 \<and> possible_hooks (\<lambda>v. ''?'') ''/hooks'' ''push'' (JStr ''repo1'') JNull =
     [''/hooks/push-repo1'', ''/hooks/push-repo1-background'',
      ''/hooks/push'', ''/hooks/push-background'', ''/hooks/all'', ''/hooks/all-background'']
 \<and> possible_hooks (\<lambda>v. ''?'') ''/hooks'' ''push'' JNull (JStr ''main'') =
     [''/hooks/push'', ''/hooks/push-background'', ''/hooks/all'', ''/hooks/all-background'']
 \<and> check_permissions (example_world [] [''/hooks/push''] (\<lambda>argv. (0, [], [])))
       [''/hooks/push-repo1'', ''/hooks/push''] = [''/hooks/push'']
 \<and> fst (dispatch (example_world [] [] (\<lambda>argv. (0, [], []))) (example_config [])
          ''/hooks'' ''push'' (JStr ''repo1'') (JStr ''main'') (JObj []))
     = Return (Dumps (JObj [(''status'', JStr ''nop'')]))
 \<and> no_resources (snd (dispatch (example_world [] [] (\<lambda>argv. (0, [], []))) (example_config [])
          ''/hooks'' ''push'' (JStr ''repo1'') (JStr ''main'') (JObj [])))"
proof -
  let ?r = "\<lambda>v::json. ''?''"
  let ?W = "example_world [] [''/hooks/push''] (\<lambda>argv. (0, [], []))"
  let ?E = "example_world [] [] (\<lambda>argv. (0, [], []))"
  have f: "isfile ?W x = (x = ''/hooks/push'')" "access_x_ok ?W x = (x = ''/hooks/push'')" for x
    by (simp_all add: example_world_def)
  have e: "check_permissions ?E xs = []" for xs
    by (simp add: check_permissions_def example_world_def)
  note hc = hook_candidates [where r = ?r and hooks = "''/hooks''" and event = "''push''"
      and cfg = "example_config []" and payload = "JObj []"]
  have 1: "possible_hooks ?r ''/hooks'' ''push'' (JStr ''repo1'') (JStr ''main'') =
     [''/hooks/push-repo1-main'', ''/hooks/push-repo1-main-background'',
      ''/hooks/push-repo1'', ''/hooks/push-repo1-background'',
      ''/hooks/push'', ''/hooks/push-background'', ''/hooks/all'', ''/hooks/all-background'']"
    using hc [where name = "JStr ''repo1''" and branch = "JStr ''main''" and w = ?E
        and s = "[]" and ss = "[]"]
    by (simp add: example_paths)
  have 2: "possible_hooks ?r ''/hooks'' ''push'' (JStr ''repo1'') JNull =
     [''/hooks/push-repo1'', ''/hooks/push-repo1-background'',
      ''/hooks/push'', ''/hooks/push-background'', ''/hooks/all'', ''/hooks/all-background'']"
    using hc [where name = "JStr ''repo1''" and branch = JNull and w = ?E
        and s = "[]" and ss = "[]"]
    by (simp add: example_paths)
  have 3: "possible_hooks ?r ''/hooks'' ''push'' JNull (JStr ''main'') =
     [''/hooks/push'', ''/hooks/push-background'', ''/hooks/all'', ''/hooks/all-background'']"
    using hc [where name = JNull and branch = "JStr ''main''" and w = ?E
        and s = "[]" and ss = "[]"]
    by (simp add: example_paths)
  have 4: "check_permissions ?W [''/hooks/push-repo1'', ''/hooks/push''] = [''/hooks/push'']"
    using hc [where name = JNull and branch = JNull and w = ?W
        and s = "''/hooks/push-repo1''" and ss = "[''/hooks/push'']"]
      hc [where name = JNull and branch = JNull and w = ?W
        and s = "''/hooks/push''" and ss = "[]"]
    by (simp add: f)
  have 5: "fst (dispatch ?E (example_config []) ''/hooks'' ''push'' (JStr ''repo1'')
              (JStr ''main'') (JObj []))
             = Return (Dumps (JObj [(''status'', JStr ''nop'')]))
         \<and> no_resources (snd (dispatch ?E (example_config []) ''/hooks'' ''push''
              (JStr ''repo1'') (JStr ''main'') (JObj [])))"
    using hc [where name = "JStr ''repo1''" and branch = "JStr ''main''" and w = ?E
        and s = "[]" and ss = "[]"]
    by (simp add: e)
  show ?thesis using 1 2 3 4 5 by simp
qed

section \<open>The dispatch loop\<close>

text \<open>
  What the loop of lines 199 to 236 does as long as nothing raises: it starts every
  script of the list, in order; it removes nothing; every temporary file it creates is
  a new one; and it runs to the end when every process can be started and the output
  of every synchronous hook decodes, whatever the exit codes are.
\<close>

lemma popens_append: "popens (a @ b) = popens a @ popens b"
  by (induction a rule: popens.induct) simp_all

lemma mkstemps_append: "mkstemps (a @ b) = mkstemps a @ mkstemps b"
  by (induction a rule: mkstemps.induct) simp_all

lemma removes_append: "removes (a @ b) = removes a @ removes b"
  by (induction a rule: removes.induct) simp_all

lemma run_script_started:
  "run_script w t e n b p s st = (None, st') \<Longrightarrow>
   map hd (popens (trace st')) = map hd (popens (trace st)) @ [s]"
  by (auto simp: run_script_def Let_def popens_append
      split: if_splits prod.splits sum.splits option.splits)

lemma run_script_no_remove:
  "run_script w t e n b p s st = (r, st') \<Longrightarrow> removes (trace st') = removes (trace st)"
  by (auto simp: run_script_def Let_def removes_append
      split: if_splits prod.splits sum.splits option.splits)

lemma run_script_mkstemps:
  "run_script w t e n b p s st = (r, st') \<Longrightarrow>
   n_tmp st \<le> n_tmp st' \<and>
   mkstemps (trace st') = mkstemps (trace st) @ map (mkstemp w) [n_tmp st ..< n_tmp st']"
  by (auto simp: run_script_def Let_def mkstemps_append
      split: if_splits prod.splits sum.splits option.splits)

lemma run_script_completes:
  assumes "\<And>argv. popen w argv = None"
    and "endswith s ''-background''
      \<or> output_decodes w [s, t, e, py_str (repr w) n, py_str (repr w) b]"
  shows "fst (run_script w t e n b p s st) = None"
  using assms
  by (auto simp: run_script_def Let_def output_decodes_def decode_utf8_def split: prod.splits)

lemma run_scripts_started:
  "run_scripts w t e n b p scripts st = (None, st') \<Longrightarrow>
   map hd (popens (trace st')) = map hd (popens (trace st)) @ scripts"
proof (induction scripts arbitrary: st)
  case Nil
  then show ?case by simp
next
  case (Cons s ss)
  obtain r st1 where 1: "run_script w t e n b p s st = (r, st1)" by fastforce
  with Cons.prems have r: "r = None" and 2: "run_scripts w t e n b p ss st1 = (None, st')"
    by (auto split: option.splits)
  from Cons.IH [OF 2] run_script_started [OF 1 [unfolded r]] show ?case by simp
qed

lemma run_scripts_no_remove:
  "run_scripts w t e n b p scripts st = (r, st') \<Longrightarrow> removes (trace st') = removes (trace st)"
proof (induction scripts arbitrary: st)
  case Nil
  then show ?case by simp
next
  case (Cons s ss)
  obtain r1 st1 where 1: "run_script w t e n b p s st = (r1, st1)" by fastforce
  show ?case
  proof (cases r1)
    case None
    with Cons.prems 1 have "run_scripts w t e n b p ss st1 = (r, st')" by simp
    from Cons.IH [OF this] run_script_no_remove [OF 1] show ?thesis by simp
  next
    case (Some x)
    with Cons.prems 1 have "st' = st1" by simp
    with run_script_no_remove [OF 1] show ?thesis by simp
  qed
qed

lemma run_scripts_mkstemps:
  "run_scripts w t e n b p scripts st = (r, st') \<Longrightarrow>
   n_tmp st \<le> n_tmp st' \<and>
   mkstemps (trace st') = mkstemps (trace st) @ map (mkstemp w) [n_tmp st ..< n_tmp st']"
proof (induction scripts arbitrary: st)
  case Nil
  then show ?case by simp
next
  case (Cons s ss)
  obtain r1 st1 where 1: "run_script w t e n b p s st = (r1, st1)" by fastforce
  note a = run_script_mkstemps [OF 1]
  show ?case
  proof (cases r1)
    case None
    with Cons.prems 1 have "run_scripts w t e n b p ss st1 = (r, st')" by simp
    from Cons.IH [OF this] have b: "n_tmp st1 \<le> n_tmp st'"
      "mkstemps (trace st') = mkstemps (trace st1) @ map (mkstemp w) [n_tmp st1 ..< n_tmp st']"
      by simp_all
    have "[n_tmp st ..< n_tmp st'] = [n_tmp st ..< n_tmp st1] @ [n_tmp st1 ..< n_tmp st']"
      using a b(1) by (metis le_Suc_ex upt_add_eq_append)
    then show ?thesis using a b by simp
  next
    case (Some x)
    with Cons.prems 1 have "st' = st1" by simp
    with a show ?thesis by simp
  qed
qed

lemma run_scripts_completes:
  assumes "\<And>argv. popen w argv = None"
  shows "list_all (\<lambda>s. endswith s ''-background''
       \<or> output_decodes w [s, t, e, py_str (repr w) n, py_str (repr w) b]) scripts
   \<Longrightarrow> fst (run_scripts w t e n b p scripts st) = None"
proof (induction scripts arbitrary: st)
  case Nil
  then show ?case by simp
next
  case (Cons s ss)
  then have "fst (run_script w t e n b p s st) = None"
    by (intro run_script_completes assms) simp
  then obtain st1 where "run_script w t e n b p s st = (None, st1)"
    by (metis prod.collapse)
  with Cons show ?case by simp
qed


lemma run_script_count:
  "run_script w t e n b p s st = (None, st') \<Longrightarrow>
   n_tmp st' = n_tmp st + (if endswith s ''-background'' then 1 else 0)"
  by (auto simp: run_script_def Let_def split: if_splits prod.splits sum.splits option.splits)

lemma run_scripts_count:
  "run_scripts w t e n b p scripts st = (None, st') \<Longrightarrow>
   n_tmp st' = n_tmp st + length (filter (\<lambda>s. endswith s ''-background'') scripts)"
proof (induction scripts arbitrary: st)
  case Nil
  then show ?case by simp
next
  case (Cons s ss)
  obtain r st1 where 1: "run_script w t e n b p s st = (r, st1)" by fastforce
  with Cons.prems have r: "r = None" and 2: "run_scripts w t e n b p ss st1 = (None, st')"
    by (auto split: option.splits)
  from Cons.IH [OF 2] run_script_count [OF 1 [unfolded r]] show ?case by simp
qed

lemma trying_logs_silent:
  "popens (trying_logs r event name branch) = []"
  "mkstemps (trying_logs r event name branch) = []"
  "removes (trying_logs r event name branch) = []"
  by (simp_all add: trying_logs_def Let_def)

text \<open>
  A dispatch with at least one script in which every process can be started and the
  outputs decode starts every script in order, creates the shared file and one file for each background hook, removes
  the shared file once, after the loop, and answers.
\<close>

lemma dispatch_completes:
  assumes ok: "\<And>argv. popen w argv = None"
    and s: "check_permissions w (possible_hooks (repr w) hooks event name branch) = scripts"
    and ne: "scripts \<noteq> []"
    and d: "list_all (\<lambda>s. endswith s ''-background''
       \<or> output_decodes w [s, mkstemp w 0, event, py_str (repr w) name, py_str (repr w) branch])
       scripts"
  shows "map hd (popens (snd (dispatch w cfg hooks event name branch payload))) = scripts"
    and "removes (snd (dispatch w cfg hooks event name branch payload)) = [mkstemp w 0]"
    and "mkstemps (snd (dispatch w cfg hooks event name branch payload))
         = map (mkstemp w) [0 ..< Suc (length (filter (\<lambda>s. endswith s ''-background'') scripts))]"
    and "\<exists>body. fst (dispatch w cfg hooks event name branch payload) = Return body"
proof -
  let ?st0 = "\<lparr>ran = [], n_tmp = 1,
      trace = trying_logs (repr w) event name branch
        @ [Mkstemp (mkstemp w 0), Write_json (mkstemp w 0) payload]\<rparr>"
  have "fst (run_scripts w (mkstemp w 0) event name branch payload scripts ?st0) = None"
    using ok d by (rule run_scripts_completes)
  then obtain st where r: "run_scripts w (mkstemp w 0) event name branch payload scripts ?st0 = (None, st)"
    by (metis prod.collapse)
  have tr: "snd (dispatch w cfg hooks event name branch payload) = trace st @ [Remove (mkstemp w 0)]
      \<or> snd (dispatch w cfg hooks event name branch payload)
         = trace st @ [Remove (mkstemp w 0), Log INFO (Output (JObj (ran st)))]"
    using s ne r by (simp add: dispatch_def Let_def)
  have p: "map hd (popens (trace st)) = scripts"
    using run_scripts_started [OF r] by (simp add: popens_append trying_logs_silent)
  have rm: "removes (trace st) = []"
    using run_scripts_no_remove [OF r] by (simp add: removes_append trying_logs_silent)
  have c: "n_tmp st = Suc (length (filter (\<lambda>s. endswith s ''-background'') scripts))"
    using run_scripts_count [OF r] by simp
  have u: "[0 ..< n_tmp st] = 0 # [1 ..< n_tmp st]"
    using c by (subst upt_rec) simp
  have "mkstemps (trace st) = [mkstemp w 0] @ map (mkstemp w) [1 ..< n_tmp st]"
    using run_scripts_mkstemps [OF r] by (simp add: mkstemps_append trying_logs_silent)
  then have m: "mkstemps (trace st) = map (mkstemp w) [0 ..< n_tmp st]"
    by (simp only: u list.map append_Cons append_Nil)
  show "map hd (popens (snd (dispatch w cfg hooks event name branch payload))) = scripts"
    using tr p by (auto simp: popens_append)
  show "removes (snd (dispatch w cfg hooks event name branch payload)) = [mkstemp w 0]"
    using tr rm by (auto simp: removes_append)
  show "mkstemps (snd (dispatch w cfg hooks event name branch payload))
         = map (mkstemp w) [0 ..< Suc (length (filter (\<lambda>s. endswith s ''-background'') scripts))]"
    using tr m c by (auto simp del: upt_Suc simp add: mkstemps_append)
  show "\<exists>body. fst (dispatch w cfg hooks event name branch payload) = Return body"
    using s ne r by (simp add: dispatch_def Let_def)
qed

section \<open>Background hooks\<close>

lemma map_of_update_same: "map_of (AList.update k v al) k = Some v"
  by (simp add: update_conv')

lemma run_scripts_append:
  "run_scripts w t e n b p (pre @ rest) st =
     (case run_scripts w t e n b p pre st of
        (Some x, st') \<Rightarrow> (Some x, st')
      | (None, st') \<Rightarrow> run_scripts w t e n b p rest st')"
  by (induction pre arbitrary: st) (auto split: prod.splits option.splits)

text \<open>
  The states of the loop in a dispatch: the shared file is the first one created, so
  the files created so far are those numbered below the counter, which is at least 1.
\<close>

lemma dispatch_loop_files:
  assumes "run_scripts w (mkstemp w 0) event name branch payload pre
      \<lparr>ran = [], n_tmp = 1,
       trace = trying_logs (repr w) event name branch
         @ [Mkstemp (mkstemp w 0), Write_json (mkstemp w 0) payload]\<rparr> = (r, st)"
  shows "0 < n_tmp st" and "mkstemps (trace st) = map (mkstemp w) [0 ..< n_tmp st]"
proof -
  from run_scripts_mkstemps [OF assms]
  have n: "1 \<le> n_tmp st"
    and m: "mkstemps (trace st) = [mkstemp w 0] @ map (mkstemp w) [1 ..< n_tmp st]"
    by (simp_all add: mkstemps_append trying_logs_silent)
  show "0 < n_tmp st" using n by simp
  have "[0 ..< n_tmp st] = 0 # [1 ..< n_tmp st]"
    using n by (subst upt_rec) simp
  then show "mkstemps (trace st) = map (mkstemp w) [0 ..< n_tmp st]"
    using m by (simp only: list.map append_Cons append_Nil)
qed

text \<open>
  C7, as the code has it. Take a dispatch, whose shared file is \<open>mkstemp w 0\<close>, and a
  hook \<open>s\<close> whose path ends in \<open>-background\<close> that the loop reaches after the scripts
  \<open>pre\<close>, and let \<^verbatim>\<open>mkstemp\<close> give different names to different files. If the
  process can be started, the turn for \<open>s\<close> creates a temporary file that is not the
  shared one and is none of the files created before, writes the payload to it, starts
  the process with that file as first argument and does not wait for it, and records
  under the base name of the hook exactly \<open>{"backgrounded": "yes"}\<close>: the marker is
  the string \<open>yes\<close>, and there is no exit code, output or error output.
\<close>

theorem background_hook_recorded:
  assumes "run_scripts w (mkstemp w 0) event name branch payload pre
      \<lparr>ran = [], n_tmp = 1,
       trace = trying_logs (repr w) event name branch
         @ [Mkstemp (mkstemp w 0), Write_json (mkstemp w 0) payload]\<rparr> = (None, st)"
    and "endswith s ''-background''"
    and "popen w [s, mkstemp w (n_tmp st), event, py_str (repr w) name, py_str (repr w) branch]
         = None"
    and "inj (mkstemp w)"
  shows "fst (run_script w (mkstemp w 0) event name branch payload s st) = None
    \<and> map_of (ran (snd (run_script w (mkstemp w 0) event name branch payload s st)))
          (basename s)
        = Some (JObj [(''backgrounded'', JStr ''yes'')])
    \<and> trace (snd (run_script w (mkstemp w 0) event name branch payload s st))
        = trace st @
          [Mkstemp (mkstemp w (n_tmp st)),
           Write_json (mkstemp w (n_tmp st)) payload,
           Popen [s, mkstemp w (n_tmp st), event, py_str (repr w) name, py_str (repr w) branch]]
    \<and> mkstemp w (n_tmp st) \<noteq> mkstemp w 0
    \<and> mkstemp w (n_tmp st) \<notin> set (mkstemps (trace st))"
proof -
  note f = dispatch_loop_files [OF assms(1)]
  have d: "mkstemp w (n_tmp st) \<noteq> mkstemp w 0"
    using f(1) assms(4) by (auto dest: injD)
  have "mkstemp w (n_tmp st) \<notin> mkstemp w ` {0 ..< n_tmp st}"
    using assms(4) by (auto dest: injD)
  then have n: "mkstemp w (n_tmp st) \<notin> set (mkstemps (trace st))"
    by (simp add: f(2))
  show ?thesis
    using assms(2,3) d n by (simp add: run_script_def Let_def map_of_update_same)
qed

text \<open>When the process cannot be started, the file of a background hook has been
  created and written, nothing is recorded, and the exception ends the loop.\<close>

lemma background_hook_not_started:
  assumes "endswith s ''-background''"
    and "popen w [s, mkstemp w (n_tmp st), event, py_str (repr w) name, py_str (repr w) branch]
         = Some e"
  shows "run_script w tmpfile event name branch payload s st =
     (Some e,
      st\<lparr>n_tmp := Suc (n_tmp st),
         trace := trace st @ [Mkstemp (mkstemp w (n_tmp st)),
                              Write_json (mkstemp w (n_tmp st)) payload]\<rparr>)"
  using assms by (simp add: run_script_def Let_def)

lemma popen_nul_argument:
  "CHR 0x00 \<in> set a \<Longrightarrow> a \<in> set argv \<Longrightarrow> popen w argv = Some ValueError"
  by (auto simp: popen_def list_ex_iff)

lemma example_digits: "digit_char 0 = CHR ''0''" "digit_char 1 = CHR ''1''" "digit_char 2 = CHR ''2''"
  by code_simp+

lemma example_str_nat:
  "str_nat 0 = ''0''" "str_nat (Suc 0) = ''1''" "str_nat 1 = ''1''" "str_nat 2 = ''2''"
  using example_digits by (simp_all add: str_nat.simps)

lemma example_mkstemp: "mkstemp (example_world k fs run) n = ''/tmp/tmp'' @ str_nat n"
  by (simp add: example_world_def)

lemma example_repr: "repr (example_world k fs run) = (\<lambda>v. ''?'')"
  by (simp add: example_world_def)


lemma example_files:
  "isfile (example_world k fs run) s = (s \<in> set fs)"
  "access_x_ok (example_world k fs run) s = (s \<in> set fs)"
  "communicate (example_world k fs run) = run"
  by (simp_all add: example_world_def)

lemma example_popen:
  "popen (example_world k fs run) argv =
     (if list_ex (\<lambda>a. CHR 0x00 \<in> set a) argv then Some ValueError else None)"
  by (simp add: popen_def example_world_def)

text \<open>The decimal digits of a number give the number back, so the temporary files of
  the concrete surroundings have different names.\<close>

lemma str_nat_value:
  "foldl (\<lambda>a c. 10 * a + (of_char c - 48)) 0 (str_nat n) = n"
proof (induction n rule: str_nat.induct)
  case (1 n)
  show ?case
  proof (cases "n < 10")
    case True
    then show ?thesis by (simp add: str_nat.simps [of n] digit_char_def)
  next
    case False
    then have "foldl (\<lambda>a c. 10 * a + (of_char c - 48)) 0 (str_nat (n div 10)) = n div 10"
      using 1 by simp
    moreover have "(of_char (digit_char (n mod 10)) :: nat) - 48 = n mod 10"
      by (simp add: digit_char_def)
    ultimately show ?thesis using False by (simp add: str_nat.simps [of n])
  qed
qed

lemma example_mkstemp_inj: "inj (mkstemp (example_world k fs run))"
proof (rule injI)
  fix x y
  assume "mkstemp (example_world k fs run) x = mkstemp (example_world k fs run) y"
  then have "str_nat x = str_nat y" by (simp add: example_mkstemp)
  then show "x = y" by (metis str_nat_value)
qed

theorem background_hook_recorded_witness:
  "run_scripts (example_world [] [''/hooks/push'', ''/hooks/push-background''] (\<lambda>argv. (0, [], [])))
     ''/tmp/tmp0'' ''push'' (JStr ''repo1'') JNull (JObj []) [''/hooks/push'']
     \<lparr>ran = [], n_tmp = 1,
      trace = [Log INFO (Trying ''push-repo1''), Log INFO (Trying ''push-repo1-background''),
               Mkstemp ''/tmp/tmp0'', Write_json ''/tmp/tmp0'' (JObj [])]\<rparr>
   = (None,
      \<lparr>ran = [(''push'', JObj [(''returncode'', JNum 0), (''stdout'', JStr []),
                               (''stderr'', JStr [])])],
       n_tmp = 1,
       trace = [Log INFO (Trying ''push-repo1''), Log INFO (Trying ''push-repo1-background''),
                Mkstemp ''/tmp/tmp0'', Write_json ''/tmp/tmp0'' (JObj []),
                Popen [''/hooks/push'', ''/tmp/tmp0'', ''push'', ''repo1'', ''None''],
                Communicate [''/hooks/push'', ''/tmp/tmp0'', ''push'', ''repo1'', ''None'']]\<rparr>)
 \<and> endswith ''/hooks/push-background'' ''-background''
 \<and> fst (run_script (example_world [] [''/hooks/push'', ''/hooks/push-background''] (\<lambda>argv. (0, [], [])))
        ''/tmp/tmp0'' ''push'' (JStr ''repo1'') JNull (JObj []) ''/hooks/push-background''
        \<lparr>ran = [(''push'', JObj [(''returncode'', JNum 0), (''stdout'', JStr []),
                                 (''stderr'', JStr [])])],
         n_tmp = 1,
         trace = [Log INFO (Trying ''push-repo1''), Log INFO (Trying ''push-repo1-background''),
                  Mkstemp ''/tmp/tmp0'', Write_json ''/tmp/tmp0'' (JObj []),
                  Popen [''/hooks/push'', ''/tmp/tmp0'', ''push'', ''repo1'', ''None''],
                  Communicate [''/hooks/push'', ''/tmp/tmp0'', ''push'', ''repo1'', ''None'']]\<rparr>)
     = None
 \<and> map_of (ran (snd (run_script
        (example_world [] [''/hooks/push'', ''/hooks/push-background''] (\<lambda>argv. (0, [], [])))
        ''/tmp/tmp0'' ''push'' (JStr ''repo1'') JNull (JObj []) ''/hooks/push-background''
        \<lparr>ran = [(''push'', JObj [(''returncode'', JNum 0), (''stdout'', JStr []),
                                 (''stderr'', JStr [])])],
         n_tmp = 1,
         trace = [Log INFO (Trying ''push-repo1''), Log INFO (Trying ''push-repo1-background''),
                  Mkstemp ''/tmp/tmp0'', Write_json ''/tmp/tmp0'' (JObj []),
                  Popen [''/hooks/push'', ''/tmp/tmp0'', ''push'', ''repo1'', ''None''],
                  Communicate [''/hooks/push'', ''/tmp/tmp0'', ''push'', ''repo1'', ''None'']]\<rparr>)))
       ''push-background''
     = Some (JObj [(''backgrounded'', JStr ''yes'')])
 \<and> trace (snd (run_script
        (example_world [] [''/hooks/push'', ''/hooks/push-background''] (\<lambda>argv. (0, [], [])))
        ''/tmp/tmp0'' ''push'' (JStr ''repo1'') JNull (JObj []) ''/hooks/push-background''
        \<lparr>ran = [(''push'', JObj [(''returncode'', JNum 0), (''stdout'', JStr []),
                                 (''stderr'', JStr [])])],
         n_tmp = 1,
         trace = [Log INFO (Trying ''push-repo1''), Log INFO (Trying ''push-repo1-background''),
                  Mkstemp ''/tmp/tmp0'', Write_json ''/tmp/tmp0'' (JObj []),
                  Popen [''/hooks/push'', ''/tmp/tmp0'', ''push'', ''repo1'', ''None''],
                  Communicate [''/hooks/push'', ''/tmp/tmp0'', ''push'', ''repo1'', ''None'']]\<rparr>))
     = [Log INFO (Trying ''push-repo1''), Log INFO (Trying ''push-repo1-background''),
        Mkstemp ''/tmp/tmp0'', Write_json ''/tmp/tmp0'' (JObj []),
        Popen [''/hooks/push'', ''/tmp/tmp0'', ''push'', ''repo1'', ''None''],
        Communicate [''/hooks/push'', ''/tmp/tmp0'', ''push'', ''repo1'', ''None''],
        Mkstemp ''/tmp/tmp1'', Write_json ''/tmp/tmp1'' (JObj []),
        Popen [''/hooks/push-background'', ''/tmp/tmp1'', ''push'', ''repo1'', ''None'']]
 \<and> ''/tmp/tmp1'' \<noteq> ''/tmp/tmp0''"
proof -
  let ?W = "example_world [] [''/hooks/push'', ''/hooks/push-background''] (\<lambda>argv. (0, [], []))"
  let ?st = "\<lparr>ran = [(''push'', JObj [(''returncode'', JNum 0), (''stdout'', JStr []),
                                 (''stderr'', JStr [])])],
         n_tmp = 1,
         trace = [Log INFO (Trying ''push-repo1''), Log INFO (Trying ''push-repo1-background''),
                  Mkstemp ''/tmp/tmp0'', Write_json ''/tmp/tmp0'' (JObj []),
                  Popen [''/hooks/push'', ''/tmp/tmp0'', ''push'', ''repo1'', ''None''],
                  Communicate [''/hooks/push'', ''/tmp/tmp0'', ''push'', ''repo1'', ''None'']]\<rparr>"
  have t: "trying_logs r ''push'' (JStr ''repo1'') JNull =
      [Log INFO (Trying ''push-repo1''), Log INFO (Trying ''push-repo1-background'')]" for r
    by (simp add: trying_logs_def)
  have e: "endswith ''/hooks/push-background'' ''-background''"
    by (simp add: endswith_def)
  have b: "basename ''/hooks/push-background'' = ''push-background''"
    by (simp add: basename_def)
  have r: "run_scripts ?W (mkstemp ?W 0) ''push'' (JStr ''repo1'') JNull (JObj []) [''/hooks/push'']
      \<lparr>ran = [], n_tmp = 1,
       trace = trying_logs (repr ?W) ''push'' (JStr ''repo1'') JNull
         @ [Mkstemp (mkstemp ?W 0), Write_json (mkstemp ?W 0) (JObj [])]\<rparr> = (None, ?st)"
    by (simp add: t run_script_def endswith_def basename_def example_mkstemp example_str_nat
        example_repr example_popen example_files decode_utf8_def Let_def)
  have p: "popen ?W [''/hooks/push-background'', mkstemp ?W (n_tmp ?st), ''push'',
      py_str (repr ?W) (JStr ''repo1''), py_str (repr ?W) JNull] = None"
    by (simp add: example_popen example_mkstemp example_str_nat)
  show ?thesis
    using background_hook_recorded [OF r e p example_mkstemp_inj] r e
    by (simp add: t b example_mkstemp example_str_nat example_repr)
qed

section \<open>Dispatches on concrete surroundings\<close>

lemma example_push_metadata:
  "determine_branch ''push'' example_push = Inr (JStr ''main'')"
  "repository_name example_push = Inr (JStr ''repo1'')"
  "push_deleted ''push'' example_push = Inr False"
  by (simp_all add: example_push_def determine_branch_def branch_cases_def list_index_def
      numeral_2_eq_2 repository_name_def push_deleted_def)

lemma example_push_index:
  "index (example_world [] fs run) (example_request None ''push'' example_push) =
     (fst (dispatch (example_world [] fs run) (example_config []) ''/hooks'' ''push''
            (JStr ''repo1'') (JStr ''main'') example_push),
      Log INFO (Metadata (JObj [(''name'', JStr ''repo1''), (''branch'', JStr ''main''),
                                (''event'', JStr ''push'')]))
      # snd (dispatch (example_world [] fs run) (example_config []) ''/hooks'' ''push''
            (JStr ''repo1'') (JStr ''main'') example_push))"
proof -
  have c: "load_config (example_world [] fs run) = example_config []"
    by (simp add: load_config_def example_world_def)
  have h: "hooks_dir (example_world [] fs run) (example_config []) = ''/hooks''"
    by (simp add: hooks_dir_def example_config_def)
  show ?thesis
    by (simp add: index_after_checks [OF example_post example_origin example_open]
        handle_event_def example_event example_json example_push_metadata c h Let_def
        split: prod.splits)
qed

lemma example_candidates:
  "possible_hooks (\<lambda>v. ''?'') ''/hooks'' ''push'' (JStr ''repo1'') (JStr ''main'') =
     [''/hooks/push-repo1-main'', ''/hooks/push-repo1-main-background'',
      ''/hooks/push-repo1'', ''/hooks/push-repo1-background'',
      ''/hooks/push'', ''/hooks/push-background'', ''/hooks/all'', ''/hooks/all-background'']"
  by (simp add: possible_hooks_def example_paths)

lemma example_trying:
  "trying_logs (\<lambda>v. ''?'') ''push'' (JStr ''repo1'') (JStr ''main'') =
     [Log INFO (Trying ''push-repo1-main''), Log INFO (Trying ''push-repo1-main-background''),
      Log INFO (Trying ''push-repo1''), Log INFO (Trying ''push-repo1-background'')]"
  by (simp add: trying_logs_def)

lemma example_info: "return_scripts_info (example_config k) = Some True"
  by (simp add: example_config_def)

lemma garbled_dispatch:
  "dispatch (example_world [] [''/hooks/push'', ''/hooks/all''] garbled_push) (example_config [])
     ''/hooks'' ''push'' (JStr ''repo1'') (JStr ''main'') example_push
   = (Raise UnicodeDecodeError,
      [Log INFO (Trying ''push-repo1-main''), Log INFO (Trying ''push-repo1-main-background''),
       Log INFO (Trying ''push-repo1''), Log INFO (Trying ''push-repo1-background''),
       Mkstemp ''/tmp/tmp0'', Write_json ''/tmp/tmp0'' example_push,
       Popen [''/hooks/push'', ''/tmp/tmp0'', ''push'', ''repo1'', ''main''],
       Communicate [''/hooks/push'', ''/tmp/tmp0'', ''push'', ''repo1'', ''main'']])"
  by (simp add: dispatch_def example_repr example_candidates example_trying check_permissions_def
      example_files example_mkstemp example_str_nat example_popen run_script_def endswith_def
      garbled_push_def decode_utf8_def Let_def)

lemma background_dispatch:
  "dispatch (example_world [] [''/hooks/push-background''] (\<lambda>argv. (0, [], []))) (example_config [])
     ''/hooks'' ''push'' (JStr ''repo1'') (JStr ''main'') example_push
   = (Return (Dumps_sorted_indent
        (JObj [(''push-background'', JObj [(''backgrounded'', JStr ''yes'')])])),
      [Log INFO (Trying ''push-repo1-main''), Log INFO (Trying ''push-repo1-main-background''),
       Log INFO (Trying ''push-repo1''), Log INFO (Trying ''push-repo1-background''),
       Mkstemp ''/tmp/tmp0'', Write_json ''/tmp/tmp0'' example_push,
       Mkstemp ''/tmp/tmp1'', Write_json ''/tmp/tmp1'' example_push,
       Popen [''/hooks/push-background'', ''/tmp/tmp1'', ''push'', ''repo1'', ''main''],
       Remove ''/tmp/tmp0'',
       Log INFO (Output (JObj [(''push-background'', JObj [(''backgrounded'', JStr ''yes'')])]))])"
  by (simp add: dispatch_def example_repr example_candidates example_trying check_permissions_def
      example_files example_mkstemp example_str_nat example_popen run_script_def endswith_def basename_def
      example_info Let_def)

lemma failing_dispatch:
  "dispatch (example_world [] [''/hooks/push'', ''/hooks/all''] (\<lambda>argv. (1, [], ''boom'')))
     (example_config []) ''/hooks'' ''push'' (JStr ''repo1'') (JStr ''main'') example_push
   = (Return (Dumps_sorted_indent
        (JObj [(''push'', JObj [(''returncode'', JNum 1), (''stdout'', JStr []),
                               (''stderr'', JStr ''boom'')]),
               (''all'', JObj [(''returncode'', JNum 1), (''stdout'', JStr []),
                              (''stderr'', JStr ''boom'')])])),
      [Log INFO (Trying ''push-repo1-main''), Log INFO (Trying ''push-repo1-main-background''),
       Log INFO (Trying ''push-repo1''), Log INFO (Trying ''push-repo1-background''),
       Mkstemp ''/tmp/tmp0'', Write_json ''/tmp/tmp0'' example_push,
       Popen [''/hooks/push'', ''/tmp/tmp0'', ''push'', ''repo1'', ''main''],
       Communicate [''/hooks/push'', ''/tmp/tmp0'', ''push'', ''repo1'', ''main''],
       Log ERROR (Hook_failed ''/hooks/push'' 1 ''boom''),
       Popen [''/hooks/all'', ''/tmp/tmp0'', ''push'', ''repo1'', ''main''],
       Communicate [''/hooks/all'', ''/tmp/tmp0'', ''push'', ''repo1'', ''main''],
       Log ERROR (Hook_failed ''/hooks/all'' 1 ''boom''),
       Remove ''/tmp/tmp0'',
       Log INFO (Output
        (JObj [(''push'', JObj [(''returncode'', JNum 1), (''stdout'', JStr []),
                               (''stderr'', JStr ''boom'')]),
               (''all'', JObj [(''returncode'', JNum 1), (''stdout'', JStr []),
                              (''stderr'', JStr ''boom'')])]))])"
  by (simp add: dispatch_def example_repr example_candidates example_trying check_permissions_def
      example_files example_mkstemp example_str_nat example_popen run_script_def endswith_def basename_def
      decode_utf8_def example_info Let_def)

text \<open>
  C7 as the specification states it, with the marker \<open>true\<close>, fails on the push event
  for which \<^verbatim>\<open>/hooks/push-background\<close> is the one executable hook: the result map
  returned holds the string \<open>yes\<close>.
\<close>

theorem background_marker_is_yes:
  "fst (index (example_world [] [''/hooks/push-background''] (\<lambda>argv. (0, [], [])))
         (example_request None ''push'' example_push))
     = Return (Dumps_sorted_indent
         (JObj [(''push-background'', JObj [(''backgrounded'', JStr ''yes'')])]))
 \<and> fst (index (example_world [] [''/hooks/push-background''] (\<lambda>argv. (0, [], [])))
         (example_request None ''push'' example_push))
     \<noteq> Return (Dumps_sorted_indent
         (JObj [(''push-background'', JObj [(''backgrounded'', JBool True)])]))"
  by (simp add: example_push_index background_dispatch)

text \<open>
  C6 fails when a synchronous hook prints bytes that are not UTF-8. With
  \<^verbatim>\<open>/hooks/push\<close> and \<^verbatim>\<open>/hooks/all\<close> both passing the filter and \<^verbatim>\<open>/hooks/push\<close>
  printing the byte \<open>0xFF\<close>, decoding its output at line 228 raises
  \<^verbatim>\<open>UnicodeDecodeError\<close>; the request ends there, and \<^verbatim>\<open>/hooks/all\<close> is never
  started.
\<close>

theorem garbled_output_stops_fanout:
  "check_permissions (example_world [] [''/hooks/push'', ''/hooks/all''] garbled_push)
     (possible_hooks (repr (example_world [] [''/hooks/push'', ''/hooks/all''] garbled_push))
        ''/hooks'' ''push'' (JStr ''repo1'') (JStr ''main''))
     = [''/hooks/push'', ''/hooks/all'']
 \<and> fst (index (example_world [] [''/hooks/push'', ''/hooks/all''] garbled_push)
         (example_request None ''push'' example_push)) = Raise UnicodeDecodeError
 \<and> popens (snd (index (example_world [] [''/hooks/push'', ''/hooks/all''] garbled_push)
         (example_request None ''push'' example_push)))
     = [[''/hooks/push'', ''/tmp/tmp0'', ''push'', ''repo1'', ''main'']]"
  by (simp add: example_push_index garbled_dispatch example_repr example_candidates
      check_permissions_def example_files)

text \<open>
  C8 fails on the same request: the shared temporary file has been created, and the
  exception leaves the handler before line 239, so the file is never removed.
\<close>

theorem garbled_output_leaks_tmpfile:
  "fst (index (example_world [] [''/hooks/push'', ''/hooks/all''] garbled_push)
         (example_request None ''push'' example_push)) = Raise UnicodeDecodeError
 \<and> mkstemps (snd (index (example_world [] [''/hooks/push'', ''/hooks/all''] garbled_push)
         (example_request None ''push'' example_push))) = [''/tmp/tmp0'']
 \<and> removes (snd (index (example_world [] [''/hooks/push'', ''/hooks/all''] garbled_push)
         (example_request None ''push'' example_push))) = []"
  by (simp add: example_push_index garbled_dispatch)

end
